theory Spec2Isabelle
  imports Complex_Main "HOL-Library.AList"
begin

section \<open>Production planner: reservation and requirement engine\<close>

text \<open>
  A shallow embedding of the class \<open>ProductionPlanner\<close> of
  \<open>src/production_planner.py\<close>: the stock index built by \<open>load_data\<close>, the
  selection of orders, the requirement calculator, the reservation of materials
  and the persisted ledger (\<open>reservations.json\<close>).

  Conventions of the embedding.
  \<^item> Python floats are modelled by \<open>real\<close>: rounding, infinities and the
    arithmetic of not-a-number are outside the model. The blank cell of pandas
    (a float not-a-number) is its own constructor \<open>NaN\<close>.
  \<^item> A Python string is the list of its code points (\<open>pystr\<close>), and the
    whitespace of \<open>str.strip\<close> and \<open>str.split\<close> is that of \<open>str.isspace\<close>.
  \<^item> Exceptions and the error dictionary of the calculator are values of the
    type \<open>error\<close>; a function that both mutates the object and may raise
    returns its outcome together with the state it leaves behind.
  \<^item> Library functions whose code is not part of the repository (\<open>str\<close> and
    \<open>float\<close> on numbers and texts, \<open>datetime.isoformat\<close> and
    \<open>datetime.fromisoformat\<close>) are parameters, collected in \<open>pyenv\<close>.
  \<^item> A dictionary whose order of insertion the code can observe is an
    association list updated with \<open>AList.update\<close>, which replaces the value of
    a key in place and appends a new key; a dictionary of floats that is only
    looked up is a map.
  \<^item> The file \<open>reservations.json\<close> is modelled by the document it holds, not by
    its text.
\<close>

subsection \<open>Strings\<close>

text \<open>A Python string is the list of its code points. \<open>lit\<close> gives the string
  of an ASCII literal.\<close>

type_synonym pystr = "int list"

definition lit :: "string \<Rightarrow> pystr" where
  "lit s = map of_char s"

text \<open>\<open>c.isspace()\<close>: the code points that \<open>str.strip\<close> and \<open>str.split\<close> take
  for whitespace: the ASCII ones, U+0085, U+00A0, U+1680, U+2000 to U+200A,
  U+2028, U+2029, U+202F, U+205F and U+3000.\<close>

definition is_space :: "int \<Rightarrow> bool" where
  "is_space c =
     ((9 \<le> c \<and> c \<le> 13) \<or> (28 \<le> c \<and> c \<le> 32) \<or> c = 133 \<or> c = 160 \<or> c = 5760 \<or>
      (8192 \<le> c \<and> c \<le> 8202) \<or> c = 8232 \<or> c = 8233 \<or> c = 8239 \<or> c = 8287 \<or>
      c = 12288)"

text \<open>\<open>s.strip()\<close>\<close>

definition strip :: "pystr \<Rightarrow> pystr" where
  "strip s = rev (dropWhile is_space (rev (dropWhile is_space s)))"

text \<open>\<open>s.split()\<close>: the maximal runs of non-whitespace characters, in order.
  The first argument is the run being read, reversed.\<close>

fun split_acc :: "pystr \<Rightarrow> pystr \<Rightarrow> pystr list" where
  "split_acc cur [] = (if cur = [] then [] else [rev cur])"
| "split_acc cur (c # cs) =
     (if is_space c
      then (if cur = [] then split_acc [] cs else rev cur # split_acc [] cs)
      else split_acc (c # cur) cs)"

definition split :: "pystr \<Rightarrow> pystr list" where
  "split s = split_acc [] s"

text \<open>The labels the code looks up, in Cyrillic: the material column, the
  on-hand column, the order-number column and the shipment-date key.\<close>

definition material_col :: pystr where
  "material_col = [0x41C, 0x430, 0x442, 0x435, 0x440, 0x438, 0x430, 0x43B]"

definition stock_col :: pystr where
  "stock_col = [0x41D, 0x430, 0x20, 0x441, 0x43A, 0x43B, 0x430, 0x434, 0x435]"

definition order_number_col :: pystr where
  "order_number_col =
     [0x41D, 0x43E, 0x43C, 0x435, 0x440, 0x20, 0x437, 0x430, 0x43A, 0x430, 0x437, 0x430]"

definition date_key :: pystr where
  "date_key =
     [0x414, 0x430, 0x442, 0x430, 0x20, 0x43E, 0x442, 0x433, 0x440, 0x443, 0x437, 0x43A, 0x438]"

subsection \<open>Values, tables and the state of the planner\<close>

text \<open>A value held by a cell of a table, by a field of an order snapshot or by
  the map of shipment dates. \<open>'d\<close> is the type of \<open>datetime\<close> objects.\<close>

datatype 'd pyval = PNone | NaN | Num real | Str pystr | Date 'd

datatype error = NoOrdersSelected | IndexError | KeyError | ValueError | TypeError

record 'd pyenv =
  num_str :: "real \<Rightarrow> pystr"
  date_str :: "'d \<Rightarrow> pystr"
  float_str :: "pystr \<Rightarrow> real option"
  isoformat :: "'d \<Rightarrow> pystr"
  fromisoformat :: "pystr \<Rightarrow> 'd option"

text \<open>\<open>pd.notna(v)\<close>\<close>

fun notna :: "'d pyval \<Rightarrow> bool" where
  "notna PNone = False"
| "notna NaN = False"
| "notna _ = True"

text \<open>\<open>str(v)\<close>\<close>

fun py_str :: "'d pyenv \<Rightarrow> 'd pyval \<Rightarrow> pystr" where
  "py_str env PNone = (lit ''None'')"
| "py_str env NaN = (lit ''nan'')"
| "py_str env (Num r) = num_str env r"
| "py_str env (Str s) = s"
| "py_str env (Date d) = date_str env d"

text \<open>The truth value of \<open>v\<close> in a condition.\<close>

fun truthy :: "'d pyval \<Rightarrow> bool" where
  "truthy PNone = False"
| "truthy NaN = True"
| "truthy (Num r) = (r \<noteq> 0)"
| "truthy (Str s) = (s \<noteq> [])"
| "truthy (Date d) = True"

text \<open>A data frame: its column labels (each rendered by \<open>str\<close>) and its rows; a
  row gives the cell under each label. Every column has one cell per row.\<close>

type_synonym 'd row = "pystr \<Rightarrow> 'd pyval"

record 'd dataframe =
  columns :: "pystr list"
  rows :: "'d row list"

text \<open>\<open>df[col]\<close>, for a label among the columns.\<close>

definition series :: "'d dataframe \<Rightarrow> pystr \<Rightarrow> 'd pyval list" where
  "series df col = map (\<lambda>r. r col) (rows df)"

text \<open>\<open>s.iloc[i]\<close> for \<open>i \<ge> 0\<close>\<close>

definition iloc :: "'a list \<Rightarrow> nat \<Rightarrow> error + 'a" where
  "iloc xs i = (if i < length xs then Inr (xs ! i) else Inl IndexError)"

text \<open>\<open>d.get(k, 0)\<close> on a dictionary of floats.\<close>

definition get0 :: "(pystr \<rightharpoonup> real) \<Rightarrow> pystr \<Rightarrow> real" where
  "get0 d k = (case d k of None \<Rightarrow> 0 | Some v \<Rightarrow> v)"

type_synonym 'd order_info = "(pystr \<times> 'd pyval) list"

record 'd planner =
  orders_df :: "'d dataframe"
  materials_df :: "'d dataframe"
  stock_data :: "pystr \<rightharpoonup> real"
  reserved_materials :: "pystr \<rightharpoonup> real"
  selected_orders :: "(pystr \<times> 'd order_info) list"

subsection \<open>\<open>load_data\<close>: the stock index\<close>




subsection \<open>\<open>select_orders\<close>\<close>

text \<open>\<open>row.to_dict()\<close>: one entry per column label.\<close>

definition to_dict :: "'d dataframe \<Rightarrow> 'd row \<Rightarrow> 'd order_info" where
  "to_dict df row = fold (\<lambda>c d. AList.update c (row c) d) (columns df) []"

text \<open>The rows whose order number, rendered as text and stripped, is the
  requested one (line 63).\<close>

definition order_rows :: "'d pyenv \<Rightarrow> 'd dataframe \<Rightarrow> pystr \<Rightarrow> 'd row list" where
  "order_rows env df order_num_str =
     filter (\<lambda>r. strip (py_str env (r order_number_col)) = order_num_str) (rows df)"

text \<open>\<open>shipment_dates.get(k)\<close>\<close>

definition get_date :: "(pystr \<rightharpoonup> 'd pyval) \<Rightarrow> pystr \<Rightarrow> 'd pyval" where
  "get_date shipment_dates k = (case shipment_dates k of None \<Rightarrow> PNone | Some v \<Rightarrow> v)"

text \<open>The loop of lines 60-68 over the requested order numbers (texts, so that
  \<open>str(order_num)\<close> is the number itself). Reading the order-number column of
  a table without it raises \<open>KeyError\<close>.\<close>

fun select_loop ::
  "'d pyenv \<Rightarrow> 'd dataframe \<Rightarrow> (pystr \<rightharpoonup> 'd pyval) \<Rightarrow> pystr list \<Rightarrow>
   (pystr \<times> 'd order_info) list \<Rightarrow> error + (pystr \<times> 'd order_info) list" where
  "select_loop env df shipment_dates [] sel = Inr sel"
| "select_loop env df shipment_dates (order_num # rest) sel =
     (if order_number_col \<notin> set (columns df) then Inl KeyError
      else let order_num_str = strip order_num in
        (case order_rows env df order_num_str of
           [] \<Rightarrow> select_loop env df shipment_dates rest sel
         | first # _ \<Rightarrow>
             let order_info = AList.update date_key (get_date shipment_dates order_num_str)
                                (to_dict df first)
             in select_loop env df shipment_dates rest (AList.update order_num_str order_info sel)))"

text \<open>The outcome and the state left behind: the selection is emptied first
  (line 58), and an exception can only come from the first look at the table.\<close>

definition select_orders ::
  "'d pyenv \<Rightarrow> pystr list \<Rightarrow> (pystr \<rightharpoonup> 'd pyval) \<Rightarrow> 'd planner \<Rightarrow>
   (error + (pystr \<times> 'd order_info) list) \<times> 'd planner" where
  "select_orders env order_numbers shipment_dates st =
     (case select_loop env (orders_df st) shipment_dates order_numbers [] of
        Inl e \<Rightarrow> (Inl e, st\<lparr>selected_orders := []\<rparr>)
      | Inr sel \<Rightarrow> (Inr sel, st\<lparr>selected_orders := sel\<rparr>))"

subsection \<open>\<open>calculate_material_requirements\<close>\<close>

record balance =
  current_stock :: real
  already_reserved :: real
  available_now :: real
  required_for_selected :: real
  balance_after :: real

record report =
  material_requirements :: "pystr \<rightharpoonup> real"
  material_balance :: "pystr \<rightharpoonup> balance"
  purchase_requirements :: "pystr \<rightharpoonup> real"
  order_materials :: "pystr \<rightharpoonup> (pystr \<rightharpoonup> real)"

text \<open>Lines 82-84: the material names, blank cells dropped.\<close>

definition all_materials :: "'d pyenv \<Rightarrow> 'd dataframe \<Rightarrow> pystr list" where
  "all_materials env df =
     (if material_col \<in> set (columns df)
      then map (\<lambda>x. strip (py_str env x)) (filter notna (series df material_col))
      else [])"

text \<open>Line 95: the test of a column label against the stripped order number.\<close>

definition col_matches :: "pystr \<Rightarrow> pystr \<Rightarrow> bool" where
  "col_matches order_num_clean col =
     (let col_str = strip col
      in order_num_clean = col_str \<or> order_num_clean \<in> set (split col_str))"

text \<open>Lines 91-96\<close>

definition order_columns :: "'d dataframe \<Rightarrow> pystr \<Rightarrow> pystr list" where
  "order_columns df order_num_clean = filter (col_matches order_num_clean) (columns df)"

text \<open>Lines 105-109: what one cell adds to the running total. A blank cell and
  a zero are skipped; \<open>float(value)\<close> fails with \<open>ValueError\<close> on a text that is
  not a number and with \<open>TypeError\<close> on a date, and both are passed over.\<close>

fun add_value :: "'d pyenv \<Rightarrow> real \<Rightarrow> 'd pyval \<Rightarrow> real" where
  "add_value env tot PNone = tot"
| "add_value env tot NaN = tot"
| "add_value env tot (Num r) = (if r \<noteq> 0 then tot + r else tot)"
| "add_value env tot (Str s) = (case float_str env s of None \<Rightarrow> tot | Some x \<Rightarrow> tot + x)"
| "add_value env tot (Date d) = tot"

text \<open>Lines 102-109: the loop over the columns of the order, at one index.\<close>

fun total_requirement ::
  "'d pyenv \<Rightarrow> 'd dataframe \<Rightarrow> pystr list \<Rightarrow> nat \<Rightarrow> real \<Rightarrow> error + real" where
  "total_requirement env df [] material_idx tot = Inr tot"
| "total_requirement env df (col # rest) material_idx tot =
     (if col \<in> set (columns df)
      then (case iloc (series df col) material_idx of
              Inl e \<Rightarrow> Inl e
            | Inr v \<Rightarrow> total_requirement env df rest material_idx (add_value env tot v))
      else total_requirement env df rest material_idx tot)"

type_synonym requirements_acc = "(pystr \<rightharpoonup> real) \<times> (pystr \<rightharpoonup> (pystr \<rightharpoonup> real))"

text \<open>Lines 111-115\<close>

definition record_requirement ::
  "pystr \<Rightarrow> pystr \<Rightarrow> real \<Rightarrow> requirements_acc \<Rightarrow> requirements_acc" where
  "record_requirement order_num material_name tot acc =
     (case acc of (required, per_order) \<Rightarrow>
        if tot > 0
        then (required(material_name \<mapsto> get0 required material_name + tot),
              per_order(order_num \<mapsto>
                (case per_order order_num of None \<Rightarrow> Map.empty | Some d \<Rightarrow> d)
                  (material_name \<mapsto> tot)))
        else (required, per_order))"

text \<open>Lines 99-115: the loop over \<open>enumerate(all_materials)\<close>.\<close>

fun material_loop ::
  "'d pyenv \<Rightarrow> 'd dataframe \<Rightarrow> pystr \<Rightarrow> pystr list \<Rightarrow> (nat \<times> pystr) list \<Rightarrow>
   requirements_acc \<Rightarrow> error + requirements_acc" where
  "material_loop env df order_num cols [] acc = Inr acc"
| "material_loop env df order_num cols ((material_idx, material_name) # rest) acc =
     (case total_requirement env df cols material_idx 0 of
        Inl e \<Rightarrow> Inl e
      | Inr tot \<Rightarrow>
          material_loop env df order_num cols rest
            (record_requirement order_num material_name tot acc))"

text \<open>Lines 87-115: the loop over the selected order numbers.\<close>

fun order_loop ::
  "'d pyenv \<Rightarrow> 'd dataframe \<Rightarrow> pystr list \<Rightarrow> pystr list \<Rightarrow>
   requirements_acc \<Rightarrow> error + requirements_acc" where
  "order_loop env df materials [] acc = Inr acc"
| "order_loop env df materials (order_num # rest) acc =
     (let cols = order_columns df (strip order_num) in
        if cols \<noteq> []
        then (case material_loop env df order_num cols (enumerate 0 materials) acc of
                Inl e \<Rightarrow> Inl e
              | Inr acc' \<Rightarrow> order_loop env df materials rest acc')
        else order_loop env df materials rest acc)"

text \<open>Lines 121-137: one entry of the balance, and of the purchase list, per
  required material.\<close>

definition balance_of :: "'d planner \<Rightarrow> pystr \<Rightarrow> real \<Rightarrow> balance" where
  "balance_of st material required =
     (let stock = get0 (stock_data st) material;
          reserved = get0 (reserved_materials st) material;
          available_stock = max 0 (stock - reserved)
      in \<lparr> current_stock = stock, already_reserved = reserved,
           available_now = available_stock, required_for_selected = required,
           balance_after = available_stock - required \<rparr>)"

definition purchase_of :: "balance \<Rightarrow> real option" where
  "purchase_of b = (if balance_after b < 0 then Some \<bar>balance_after b\<bar> else None)"

definition calculate_material_requirements :: "'d pyenv \<Rightarrow> 'd planner \<Rightarrow> error + report" where
  "calculate_material_requirements env st =
     (if selected_orders st = [] then Inl NoOrdersSelected
      else
        (case order_loop env (materials_df st) (all_materials env (materials_df st))
                (map fst (selected_orders st)) (Map.empty, Map.empty) of
           Inl e \<Rightarrow> Inl e
         | Inr (required, per_order) \<Rightarrow>
             Inr \<lparr> material_requirements = required,
                   material_balance = (\<lambda>m. map_option (balance_of st m) (required m)),
                   purchase_requirements =
                     (\<lambda>m. Option.bind (required m) (\<lambda>r. purchase_of (balance_of st m r))),
                   order_materials = per_order \<rparr>))"

subsection \<open>The persisted ledger: \<open>save_reservation_data\<close> and \<open>load_reservation_data\<close>\<close>

text \<open>The values a JSON document holds, and the content of
  \<open>reservations.json\<close>: no file, a file that cannot be opened or parsed, or a
  document of the shape that \<open>save_reservation_data\<close> writes, where either
  dictionary may be missing.\<close>

datatype jval = JNull | JNaN | JNum real | JStr pystr

record document =
  doc_reserved :: "(pystr \<rightharpoonup> real) option"
  doc_orders :: "(pystr \<times> (pystr \<times> jval) list) list option"
  doc_timestamp :: pystr

datatype ledger_file = Missing | Unreadable | Document document

text \<open>\<open>json.dump\<close> on a value: a \<open>datetime\<close> is not serializable.\<close>

fun to_json :: "'d pyval \<Rightarrow> jval option" where
  "to_json PNone = Some JNull"
| "to_json NaN = Some JNaN"
| "to_json (Num r) = Some (JNum r)"
| "to_json (Str s) = Some (JStr s)"
| "to_json (Date d) = None"

fun of_json :: "jval \<Rightarrow> 'd pyval" where
  "of_json JNull = PNone"
| "of_json JNaN = NaN"
| "of_json (JNum r) = Num r"
| "of_json (JStr s) = Str s"

fun dump_fields :: "'d order_info \<Rightarrow> (pystr \<times> jval) list option" where
  "dump_fields [] = Some []"
| "dump_fields ((k, v) # rest) =
     (case to_json v of
        None \<Rightarrow> None
      | Some j \<Rightarrow> map_option ((#) (k, j)) (dump_fields rest))"

fun dump_orders ::
  "(pystr \<times> 'd order_info) list \<Rightarrow> (pystr \<times> (pystr \<times> jval) list) list option" where
  "dump_orders [] = Some []"
| "dump_orders ((order_num, info) # rest) =
     (case dump_fields info of
        None \<Rightarrow> None
      | Some entries \<Rightarrow> map_option ((#) (order_num, entries)) (dump_orders rest))"

text \<open>Lines 176-179: the copy of a snapshot with a \<open>datetime\<close> shipment date
  turned into its ISO text.\<close>

definition serialize_order :: "'d pyenv \<Rightarrow> 'd order_info \<Rightarrow> 'd order_info" where
  "serialize_order env order_info =
     (case map_of order_info date_key of
        None \<Rightarrow> order_info
      | Some v \<Rightarrow>
          if truthy v
          then (case v of
                  Date d \<Rightarrow> AList.update date_key (Str (isoformat env d)) order_info
                | _ \<Rightarrow> order_info)
          else order_info)"

text \<open>Lines 171-193. \<open>now\<close> is the text of the current time; \<open>open_ok\<close> says
  whether the file could be opened for writing. A failure is printed, never
  raised: with the file not opened the old content stays, and a dump that
  stops at a value it cannot serialize leaves a truncated file.\<close>

definition save_reservation_data :: "'d pyenv \<Rightarrow> pystr \<Rightarrow> bool \<Rightarrow> 'd planner \<Rightarrow> ledger_file \<Rightarrow> ledger_file" where
  "save_reservation_data env now open_ok st disk =
     (let serializable_orders =
            fold (\<lambda>(order_num, order_info) out.
                    AList.update order_num (serialize_order env order_info) out)
                 (selected_orders st) []
      in if \<not> open_ok then disk
         else (case dump_orders serializable_orders of
                 None \<Rightarrow> Unreadable
               | Some orders \<Rightarrow>
                   Document \<lparr> doc_reserved = Some (reserved_materials st),
                              doc_orders = Some orders, doc_timestamp = now \<rparr>))"

text \<open>Lines 206-210: \<open>fromisoformat\<close> raises \<open>ValueError\<close> on a text it cannot
  read and \<open>TypeError\<close> on anything that is not a text.\<close>

definition restore_date :: "'d pyenv \<Rightarrow> 'd pyval \<Rightarrow> 'd pyval" where
  "restore_date env v =
     (case v of
        Str s \<Rightarrow> (case fromisoformat env s of None \<Rightarrow> PNone | Some d \<Rightarrow> Date d)
      | _ \<Rightarrow> PNone)"

definition restore_order :: "'d pyenv \<Rightarrow> 'd order_info \<Rightarrow> 'd order_info" where
  "restore_order env order_info =
     (case map_of order_info date_key of
        None \<Rightarrow> order_info
      | Some v \<Rightarrow>
          if truthy v then AList.update date_key (restore_date env v) order_info
          else order_info)"

text \<open>Lines 195-217: the outcome (\<open>True\<close> or \<open>False\<close>) and the state.\<close>

definition load_reservation_data :: "'d pyenv \<Rightarrow> ledger_file \<Rightarrow> 'd planner \<Rightarrow> bool \<times> 'd planner" where
  "load_reservation_data env disk st =
     (case disk of
        Missing \<Rightarrow> (False, st)
      | Unreadable \<Rightarrow> (False, st)
      | Document data \<Rightarrow>
          (True,
           st\<lparr> reserved_materials :=
                 (case doc_reserved data of None \<Rightarrow> Map.empty | Some d \<Rightarrow> d),
               selected_orders :=
                 fold (\<lambda>(order_num, entries) sel.
                         AList.update order_num
                           (restore_order env (map (\<lambda>(k, j). (k, of_json j)) entries)) sel)
                      (case doc_orders data of None \<Rightarrow> [] | Some orders \<Rightarrow> orders)
                      (selected_orders st) \<rparr>))"

subsection \<open>\<open>reserve_materials\<close>\<close>

record reservation =
  reserved_orders :: "pystr list"
  reserved_after :: "pystr \<rightharpoonup> real"
  requirements :: report

text \<open>Lines 158-159: \<open>reserved[material] += required\<close> for every required
  material, on a dictionary whose missing entries read as \<open>0.0\<close>.\<close>

definition add_reserved :: "(pystr \<rightharpoonup> real) \<Rightarrow> (pystr \<rightharpoonup> real) \<Rightarrow> (pystr \<rightharpoonup> real)" where
  "add_reserved reserved required =
     (\<lambda>m. case required m of None \<Rightarrow> reserved m | Some r \<Rightarrow> Some (get0 reserved m + r))"

text \<open>Lines 146-169: the outcome (the error, or the success dictionary), the
  state of the planner and the content of the file afterwards.\<close>

definition reserve_materials ::
  "'d pyenv \<Rightarrow> pystr \<Rightarrow> bool \<Rightarrow> pystr list \<Rightarrow> (pystr \<rightharpoonup> 'd pyval) \<Rightarrow> 'd planner \<Rightarrow> ledger_file \<Rightarrow>
   (error + reservation) \<times> 'd planner \<times> ledger_file" where
  "reserve_materials env now open_ok order_numbers shipment_dates st disk =
     (case select_orders env order_numbers shipment_dates st of
        (Inl e, st1) \<Rightarrow> (Inl e, st1, disk)
      | (Inr _, st1) \<Rightarrow>
          (case calculate_material_requirements env st1 of
             Inl e \<Rightarrow> (Inl e, st1, disk)
           | Inr reqs \<Rightarrow>
               let st2 = st1\<lparr> reserved_materials :=
                               add_reserved (reserved_materials st1) (material_requirements reqs) \<rparr>
               in (Inr \<lparr> reserved_orders = map fst (selected_orders st2),
                         reserved_after = reserved_materials st2,
                         requirements = reqs \<rparr>,
                   st2, save_reservation_data env now open_ok st2 disk)))"

subsection \<open>Closed forms of the loops\<close>

text \<open>What the loop over the columns computes at one index: the sum of the
  cells that row \<open>idx\<close> of the table holds under the given columns.\<close>

definition row_total :: "'d pyenv \<Rightarrow> 'd dataframe \<Rightarrow> pystr list \<Rightarrow> nat \<Rightarrow> real" where
  "row_total env df cols idx =
     fold (\<lambda>c a. if c \<in> set (columns df) then add_value env a ((rows df ! idx) c) else a) cols 0"

definition positive_part :: "real \<Rightarrow> real" where
  "positive_part x = (if x > 0 then x else 0)"

text \<open>What the loops of lines 99-115 add up for one order and one name: the
  positive totals at the positions of the list of names that carry the name,
  each total read from the row of the table at that position.\<close>

definition indexed_requirement :: "'d pyenv \<Rightarrow> 'd dataframe \<Rightarrow> pystr \<Rightarrow> pystr \<Rightarrow> real" where
  "indexed_requirement env df order_num m =
     (\<Sum>(idx, name) \<leftarrow> enumerate 0 (all_materials env df).
        if name = m then positive_part (row_total env df (order_columns df (strip order_num)) idx)
        else 0)"

definition order_step ::
  "'d pyenv \<Rightarrow> 'd dataframe \<Rightarrow> pystr list \<Rightarrow> pystr \<Rightarrow> requirements_acc \<Rightarrow> requirements_acc" where
  "order_step env df ms order_num acc =
     fold (\<lambda>p. record_requirement order_num (snd p)
                  (row_total env df (order_columns df (strip order_num)) (fst p)))
          (enumerate 0 ms) acc"

definition required_acc :: "'d pyenv \<Rightarrow> 'd dataframe \<Rightarrow> pystr list \<Rightarrow> requirements_acc" where
  "required_acc env df orders =
     fold (order_step env df (all_materials env df)) orders (Map.empty, Map.empty)"

subsection \<open>Notions of the statements\<close>


text \<open>What a shipment date is expected to come back as after a save and a
  load: a \<open>datetime\<close> and \<open>None\<close> as they were, as are the other values that
  count as false (the empty text, zero); a non-empty text as the \<open>datetime\<close> it
  parses to, or \<open>None\<close> when it does not parse; anything else as \<open>None\<close>. Then a
  snapshot with its shipment date reloaded, and the orders a document holds.\<close>

definition reloaded_date :: "'d pyenv \<Rightarrow> 'd pyval \<Rightarrow> 'd pyval" where
  "reloaded_date env v =
     (case v of
        PNone \<Rightarrow> PNone
      | Date d \<Rightarrow> Date d
      | Str s \<Rightarrow> if s = [] then Str []
                 else (case fromisoformat env s of None \<Rightarrow> PNone | Some d \<Rightarrow> Date d)
      | Num r \<Rightarrow> if r = 0 then Num 0 else PNone
      | NaN \<Rightarrow> PNone)"

definition reloaded_order :: "'d pyenv \<Rightarrow> 'd order_info \<Rightarrow> 'd order_info" where
  "reloaded_order env order_info =
     (case map_of order_info date_key of
        None \<Rightarrow> order_info
      | Some v \<Rightarrow> AList.update date_key (reloaded_date env v) order_info)"


text \<open>The words of the specification about labels: \<open>t\<close> is \<open>s\<close> trimmed, and
  \<open>t\<close> is one of the whitespace-separated tokens of \<open>s\<close>.\<close>

definition trims_to :: "pystr \<Rightarrow> pystr \<Rightarrow> bool" where
  "trims_to s t \<longleftrightarrow>
     (\<exists>pre post. s = pre @ t @ post \<and> (\<forall>c \<in> set pre. is_space c) \<and> (\<forall>c \<in> set post. is_space c) \<and>
        (t = [] \<or> (\<not> is_space (hd t) \<and> \<not> is_space (last t))))"

definition token_of :: "pystr \<Rightarrow> pystr \<Rightarrow> bool" where
  "token_of t s \<longleftrightarrow>
     t \<noteq> [] \<and> (\<forall>c \<in> set t. \<not> is_space c) \<and>
     (\<exists>pre post. s = pre @ t @ post \<and> (pre = [] \<or> is_space (last pre)) \<and>
        (post = [] \<or> is_space (hd post)))"

text \<open>The resolved requirement of one order for one material as section 4.2 of
  the specification has it, with the row as the join key: over the rows whose
  material cell holds the name, the sum of the positive sums of the cells of
  the row under the columns of the order.\<close>

definition joined_requirement :: "'d pyenv \<Rightarrow> 'd dataframe \<Rightarrow> pystr \<Rightarrow> pystr \<Rightarrow> real" where
  "joined_requirement env df order_num m =
     (\<Sum>row \<leftarrow> rows df.
        if material_col \<in> set (columns df) \<and> notna (row material_col) \<and>
           strip (py_str env (row material_col)) = m
        then positive_part (\<Sum>col \<leftarrow> order_columns df (strip order_num). add_value env 0 (row col))
        else 0)"

subsection \<open>A small instance\<close>

text \<open>An instance to evaluate the definitions on. Dates are numbers of days,
  whose ISO text is \<open>D\<close> (68) followed by that many \<open>I\<close> (73); \<open>float\<close> reads the texts
  made of decimal digits and rejects the others, as Python does for the texts
  of the tables below. No table below has a number or a date for an
  identifier, so that \<open>num_str\<close> and \<open>date_str\<close> are never consulted.\<close>

fun digits_value :: "int \<Rightarrow> pystr \<Rightarrow> int option" where
  "digits_value n [] = Some n"
| "digits_value n (c # cs) =
     (if 48 \<le> c \<and> c \<le> 57 then digits_value (10 * n + (c - 48)) cs else None)"

definition demo_env :: "nat pyenv" where
  "demo_env =
     \<lparr> num_str = (\<lambda>r. lit ''0''),
       date_str = (\<lambda>d. replicate d 73),
       float_str = (\<lambda>s. if s = [] then None else map_option real_of_int (digits_value 0 s)),
       isoformat = (\<lambda>d. 68 # replicate d 73),
       fromisoformat =
         (\<lambda>s. case s of
                 [] \<Rightarrow> None
               | c # cs \<Rightarrow> if c = 68 \<and> cs = replicate (length cs) 73
                           then Some (length cs) else None) \<rparr>"

text \<open>A row given by its cells; every other label reads as a blank cell.\<close>

definition row_of :: "(pystr \<times> 'd pyval) list \<Rightarrow> 'd row" where
  "row_of cells = (\<lambda>c. case map_of cells c of None \<Rightarrow> NaN | Some v \<Rightarrow> v)"

definition demo_orders :: "nat dataframe" where
  "demo_orders =
     \<lparr> columns = [order_number_col, (lit ''client'')],
       rows = [row_of [(order_number_col, Str (lit ''101'')), ((lit ''client''), Str (lit ''A''))],
               row_of [(order_number_col, Str (lit ''102'')), ((lit ''client''), Str (lit ''B''))]] \<rparr>"

text \<open>Stock \<open>glass: 10\<close>; the composite column \<open>101 102\<close> asks for 4 of glass,
  the column \<open>102\<close> for 3 of tape.\<close>

definition demo_materials :: "nat dataframe" where
  "demo_materials =
     \<lparr> columns = [material_col, stock_col, (lit ''101 102''), (lit ''102'')],
       rows = [row_of [(material_col, Str (lit ''glass'')), (stock_col, Num 10), ((lit ''101 102''), Num 4)],
               row_of [(material_col, Str (lit ''tape'')), ((lit ''102''), Num 3)]] \<rparr>"

definition demo_planner :: "nat planner" where
  "demo_planner =
     \<lparr> orders_df = demo_orders, materials_df = demo_materials,
       stock_data = [(lit ''glass'') \<mapsto> 10], reserved_materials = Map.empty,
       selected_orders = [] \<rparr>"

text \<open>Stock \<open>glass: 10\<close>, of which 8 are reserved, and order \<open>101\<close> selected.\<close>

definition demo_reserved :: "nat planner" where
  "demo_reserved =
     demo_planner \<lparr> reserved_materials := [(lit ''glass'') \<mapsto> 8],
                    selected_orders := [((lit ''101''), [((lit ''client''), Str (lit ''A'')), (date_key, PNone)])] \<rparr>"

text \<open>The selection of order \<open>101\<close> alone, as \<open>select_orders\<close> builds it.\<close>

definition demo_selection :: "(pystr \<times> nat order_info) list" where
  "demo_selection =
     [((lit ''101''), [(order_number_col, Str (lit ''101'')), ((lit ''client''), Str (lit ''A'')), (date_key, PNone)])]"

text \<open>Two selected orders, one with a \<open>datetime\<close> shipment date and one with a
  text that is not a date; and a document holding order \<open>102\<close> alone.\<close>

definition demo_dated :: "nat planner" where
  "demo_dated =
     demo_planner \<lparr> reserved_materials := [(lit ''glass'') \<mapsto> 8],
                    selected_orders :=
                      [((lit ''101''), [((lit ''client''), Str (lit ''A'')), (date_key, Date 3)]),
                       ((lit ''102''), [((lit ''client''), Str (lit ''B'')), (date_key, Str (lit ''soon''))])] \<rparr>"

text \<open>One selected order, shipped on day 5.\<close>

definition demo_structured :: "nat planner" where
  "demo_structured =
     demo_planner \<lparr> reserved_materials := [(lit ''tape'') \<mapsto> 3],
                    selected_orders := [((lit ''102''), [((lit ''client''), Str (lit ''B'')), (date_key, Date 5)])] \<rparr>"



definition shifted_materials :: "nat dataframe" where
  "shifted_materials =
     \<lparr> columns = [material_col, (lit ''101'')],
       rows = [row_of [((lit ''101''), Num 7)],
               row_of [(material_col, Str (lit ''glass'')), ((lit ''101''), Num 4)]] \<rparr>"

definition shifted_planner :: "nat planner" where
  "shifted_planner =
     \<lparr> orders_df = demo_orders, materials_df = shifted_materials,
       stock_data = Map.empty, reserved_materials = Map.empty,
       selected_orders = [((lit ''101''), [((lit ''client''), Str (lit ''A'')), (date_key, PNone)])] \<rparr>"

text \<open>The table with the blank first row, with 5 of glass in stock.\<close>

definition shifted_stocked :: "nat planner" where
  "shifted_stocked = shifted_planner \<lparr> stock_data := [lit ''glass'' \<mapsto> 5] \<rparr>"

text \<open>A table with a label padded with spaces, a label whose two numbers are
  separated by a no-break space (U+00A0), and a label that merely starts with
  \<open>101\<close>.\<close>

definition padded_label :: pystr where
  "padded_label = lit '' 101 102 ''"

definition nbsp_label :: pystr where
  "nbsp_label = lit ''101'' @ [160] @ lit ''103''"

definition padded_materials :: "nat dataframe" where
  "padded_materials =
     \<lparr> columns = [material_col, padded_label, nbsp_label, lit ''1011''],
       rows = [row_of [(material_col, Str (lit ''glass'')), (padded_label, Num 4),
                       (nbsp_label, Num 2), (lit ''1011'', Num 9)]] \<rparr>"

section \<open>Properties\<close>

subsection \<open>The calculator never reads outside the table\<close>

lemma total_requirement_fold:
  "idx < length (rows df) \<Longrightarrow>
   total_requirement env df cols idx t =
     Inr (fold (\<lambda>c a. if c \<in> set (columns df) then add_value env a ((rows df ! idx) c) else a)
            cols t)"
  by (induction cols arbitrary: t) (simp_all add: iloc_def series_def)

lemma total_requirement_row_total:
  "idx < length (rows df) \<Longrightarrow>
   total_requirement env df cols idx 0 = Inr (row_total env df cols idx)"
  by (simp add: total_requirement_fold row_total_def)

lemma material_loop_fold:
  "\<forall>p \<in> set xs. fst p < length (rows df) \<Longrightarrow>
   material_loop env df order_num cols xs acc =
     Inr (fold (\<lambda>p. record_requirement order_num (snd p) (row_total env df cols (fst p))) xs acc)"
proof (induction xs arbitrary: acc)
  case Nil
  then show ?case by simp
next
  case (Cons p xs)
  obtain i n where p: "p = (i, n)" by (cases p)
  with Cons.prems have "i < length (rows df)" by simp
  with Cons p show ?case by (simp add: total_requirement_row_total)
qed

lemma length_all_materials: "length (all_materials env df) \<le> length (rows df)"
  by (simp add: all_materials_def series_def le_trans[OF length_filter_le])

lemma enumerate_in_range:
  "length ms \<le> n \<Longrightarrow> \<forall>p \<in> set (enumerate 0 ms). fst p < n"
  by (auto simp: in_set_enumerate_eq)

lemma row_total_no_columns: "row_total env df [] idx = 0"
  by (simp add: row_total_def)

lemma record_requirement_zero: "record_requirement order_num n 0 acc = acc"
  by (cases acc) (simp add: record_requirement_def)

lemma order_step_no_columns:
  "order_columns df (strip order_num) = [] \<Longrightarrow> order_step env df ms order_num acc = acc"
proof -
  have "fold (\<lambda>p. record_requirement order_num (snd p) 0) xs acc = acc"
    for xs :: "(nat \<times> pystr) list"
    by (induction xs) (simp_all add: record_requirement_zero)
  then show ?thesis if "order_columns df (strip order_num) = []"
    using that by (simp add: order_step_def row_total_no_columns)
qed

lemma order_loop_fold:
  "length ms \<le> length (rows df) \<Longrightarrow>
   order_loop env df ms orders acc = Inr (fold (order_step env df ms) orders acc)"
proof (induction orders arbitrary: acc)
  case Nil
  then show ?case by simp
next
  case (Cons order_num orders)
  have rng: "\<forall>p \<in> set (enumerate 0 ms). fst p < length (rows df)"
    using Cons.prems by (rule enumerate_in_range)
  show ?case
  proof (cases "order_columns df (strip order_num) = []")
    case True
    with Cons show ?thesis by (simp add: order_step_no_columns)
  next
    case False
    with Cons rng show ?thesis
      by (simp add: material_loop_fold order_step_def Let_def)
  qed
qed

lemma order_loop_required_acc:
  "order_loop env df (all_materials env df) orders (Map.empty, Map.empty) =
     Inr (required_acc env df orders)"
  by (simp add: order_loop_fold length_all_materials required_acc_def)

subsection \<open>The required quantities as sums\<close>

lemma get0_record_requirement:
  "get0 (fst (record_requirement order_num n t acc)) m =
     get0 (fst acc) m + (if n = m then positive_part t else 0)"
  by (cases acc) (simp add: record_requirement_def get0_def positive_part_def)

lemma get0_fold_record:
  "get0 (fst (fold (\<lambda>p. record_requirement order_num (snd p) (f (fst p))) xs acc)) m =
     get0 (fst acc) m + (\<Sum>(idx, name) \<leftarrow> xs. if name = m then positive_part (f idx) else 0)"
  by (induction xs arbitrary: acc) (simp_all add: get0_record_requirement case_prod_beta)

lemma get0_order_step:
  "get0 (fst (order_step env df (all_materials env df) order_num acc)) m =
     get0 (fst acc) m + indexed_requirement env df order_num m"
  by (simp add: order_step_def indexed_requirement_def get0_fold_record)

lemma get0_fold_order_step:
  "get0 (fst (fold (order_step env df (all_materials env df)) orders acc)) m =
     get0 (fst acc) m + (\<Sum>order_num \<leftarrow> orders. indexed_requirement env df order_num m)"
  by (induction orders arbitrary: acc) (simp_all add: get0_order_step)

lemma get0_required_acc:
  "get0 (fst (required_acc env df orders)) m =
     (\<Sum>order_num \<leftarrow> orders. indexed_requirement env df order_num m)"
  unfolding required_acc_def get0_fold_order_step by (simp add: get0_def)

lemma calculate_Inr:
  assumes "selected_orders st \<noteq> []"
  shows "calculate_material_requirements env st =
     Inr \<lparr> material_requirements =
             fst (required_acc env (materials_df st) (map fst (selected_orders st))),
           material_balance = (\<lambda>m. map_option (balance_of st m)
              (fst (required_acc env (materials_df st) (map fst (selected_orders st))) m)),
           purchase_requirements = (\<lambda>m. Option.bind
              (fst (required_acc env (materials_df st) (map fst (selected_orders st))) m)
              (\<lambda>r. purchase_of (balance_of st m r))),
           order_materials =
             snd (required_acc env (materials_df st) (map fst (selected_orders st))) \<rparr>"
  using assms
  by (simp add: calculate_material_requirements_def order_loop_required_acc split: prod.split)

lemma calculate_Inr_selected:
  "calculate_material_requirements env st = Inr r \<Longrightarrow> selected_orders st \<noteq> []"
  by (auto simp: calculate_material_requirements_def split: if_splits)

subsection \<open>The state of the small instance\<close>

lemma demo_reserved_ledger:
  "get0 (stock_data demo_reserved) (lit ''glass'') = 10"
  "get0 (reserved_materials demo_reserved) (lit ''glass'') = 8"
  "selected_orders demo_reserved \<noteq> []"
  by (simp_all add: demo_reserved_def demo_planner_def get0_def)

subsection \<open>Reserving materials\<close>

lemma select_orders_cases:
  obtains (raised) e where "select_orders env ons sd st = (Inl e, st\<lparr>selected_orders := []\<rparr>)"
  | (selected) sel where "select_orders env ons sd st = (Inr sel, st\<lparr>selected_orders := sel\<rparr>)"
  by (cases "select_loop env (orders_df st) sd ons []") (auto simp: select_orders_def)

lemma select_orders_same_table:
  "orders_df st' = orders_df st \<Longrightarrow>
   fst (select_orders env ons sd st') = fst (select_orders env ons sd st)"
  by (simp add: select_orders_def split: sum.splits)

lemma select_orders_empty_list:
  "select_orders env [] sd st = (Inr [], st\<lparr>selected_orders := []\<rparr>)"
  by (simp add: select_orders_def)

lemma calculate_requirements_frame:
  assumes "calculate_material_requirements env st = Inr r"
    and "materials_df st' = materials_df st"
    and "map fst (selected_orders st') = map fst (selected_orders st)"
  shows "\<exists>r'. calculate_material_requirements env st' = Inr r' \<and>
           material_requirements r' = material_requirements r"
proof -
  from assms(1) have ne: "selected_orders st \<noteq> []"
    by (rule calculate_Inr_selected)
  with assms(3) have ne': "selected_orders st' \<noteq> []" by auto
  from assms(1) calculate_Inr[OF ne, of env]
  have "material_requirements r =
          fst (required_acc env (materials_df st) (map fst (selected_orders st)))"
    by auto
  with calculate_Inr[OF ne', of env] assms(2,3) show ?thesis by simp
qed

lemma reserve_materials_selected:
  assumes "select_orders env ons sd st = (Inr sel, st1)"
    and "calculate_material_requirements env st1 = Inr reqs"
  shows "reserve_materials env now open_ok ons sd st disk =
     (Inr \<lparr> reserved_orders = map fst (selected_orders st1),
            reserved_after = add_reserved (reserved_materials st1) (material_requirements reqs),
            requirements = reqs \<rparr>,
      st1\<lparr> reserved_materials :=
             add_reserved (reserved_materials st1) (material_requirements reqs) \<rparr>,
      save_reservation_data env now open_ok
        (st1\<lparr> reserved_materials :=
               add_reserved (reserved_materials st1) (material_requirements reqs) \<rparr>) disk)"
  using assms by (simp add: reserve_materials_def Let_def)

lemma reserve_materials_InrD:
  assumes "reserve_materials env now open_ok ons sd st disk = (Inr res, st', disk')"
  obtains sel where "select_orders env ons sd st = (Inr sel, st\<lparr>selected_orders := sel\<rparr>)"
    and "calculate_material_requirements env (st\<lparr>selected_orders := sel\<rparr>) = Inr (requirements res)"
    and "reserved_after res =
           add_reserved (reserved_materials st) (material_requirements (requirements res))"
    and "st' = st\<lparr> selected_orders := sel,
                    reserved_materials :=
                      add_reserved (reserved_materials st) (material_requirements (requirements res)) \<rparr>"
proof (cases rule: select_orders_cases[of env ons sd st])
  case (raised e)
  with assms show ?thesis by (simp add: reserve_materials_def)
next
  case (selected sel)
  show ?thesis
  proof (cases "calculate_material_requirements env (st\<lparr>selected_orders := sel\<rparr>)")
    case (Inl e)
    with selected assms show ?thesis by (simp add: reserve_materials_def)
  next
    case (Inr reqs)
    from reserve_materials_selected[OF selected Inr, of now open_ok disk] assms
    have "res = \<lparr> reserved_orders = map fst sel,
            reserved_after = add_reserved (reserved_materials st) (material_requirements reqs),
            requirements = reqs \<rparr>"
      and "st' = st\<lparr> selected_orders := sel, reserved_materials :=
             add_reserved (reserved_materials st) (material_requirements reqs) \<rparr>"
      by simp_all
    with selected Inr that show ?thesis by simp
  qed
qed

lemma get0_add_reserved:
  "get0 (add_reserved reserved required) m = get0 reserved m + get0 required m"
  by (simp add: add_reserved_def get0_def split: option.splits)

lemma dom_add_reserved: "dom (add_reserved reserved required) = dom reserved \<union> dom required"
  by (auto simp: add_reserved_def split: option.splits)

text \<open>
  Claim C9. After a successful call of \<open>reserve_materials\<close> the report in the
  result is the one computed on the state that selection left, whose reserved
  quantities are still the prior ones: for every material of the balance the
  already-reserved and available-now figures use the prior reserved value,
  while the reserved mapping of the result, which is the one of the state
  afterwards, holds the prior value plus the required quantity. A material
  outside the report keeps its entry.
\<close>

theorem reserve_report_uses_prior_ledger:
  assumes "reserve_materials env now open_ok ons sd st disk = (Inr res, st', disk')"
  shows "calculate_material_requirements env (snd (select_orders env ons sd st)) =
           Inr (requirements res) \<and>
         reserved_materials (snd (select_orders env ons sd st)) = reserved_materials st \<and>
         reserved_after res = reserved_materials st' \<and>
         (\<forall>m b. material_balance (requirements res) m = Some b \<longrightarrow>
            already_reserved b = get0 (reserved_materials st) m \<and>
            available_now b = max 0 (get0 (stock_data st) m - get0 (reserved_materials st) m) \<and>
            material_requirements (requirements res) m = Some (required_for_selected b) \<and>
            reserved_after res m = Some (get0 (reserved_materials st) m + required_for_selected b)) \<and>
         (\<forall>m. material_balance (requirements res) m = None \<longrightarrow>
            reserved_after res m = reserved_materials st m)"
proof -
  from assms obtain sel where
    sel: "select_orders env ons sd st = (Inr sel, st\<lparr>selected_orders := sel\<rparr>)"
    and calc: "calculate_material_requirements env (st\<lparr>selected_orders := sel\<rparr>) = Inr (requirements res)"
    and after: "reserved_after res =
           add_reserved (reserved_materials st) (material_requirements (requirements res))"
    and st': "st' = st\<lparr> selected_orders := sel,
                    reserved_materials :=
                      add_reserved (reserved_materials st) (material_requirements (requirements res)) \<rparr>"
    by (rule reserve_materials_InrD)
  let ?st1 = "st\<lparr>selected_orders := sel\<rparr>"
  from calc have ne: "selected_orders ?st1 \<noteq> []" by (rule calculate_Inr_selected)
  note rep = calc[unfolded calculate_Inr[OF ne]]
  have bal: "material_balance (requirements res) m =
      map_option (balance_of ?st1 m) (material_requirements (requirements res) m)" for m
    using rep by (cases "requirements res") auto
  have present: "already_reserved b = get0 (reserved_materials st) m \<and>
            available_now b = max 0 (get0 (stock_data st) m - get0 (reserved_materials st) m) \<and>
            material_requirements (requirements res) m = Some (required_for_selected b) \<and>
            reserved_after res m = Some (get0 (reserved_materials st) m + required_for_selected b)"
    if "material_balance (requirements res) m = Some b" for m b
  proof -
    from that bal[of m] obtain x where x: "material_requirements (requirements res) m = Some x"
      and b: "b = balance_of ?st1 m x" by auto
    show ?thesis by (simp add: b x after add_reserved_def balance_of_def Let_def)
  qed
  have absent: "reserved_after res m = reserved_materials st m"
    if "material_balance (requirements res) m = None" for m
    using that bal[of m] by (simp add: after add_reserved_def)
  from sel calc after st' present absent show ?thesis by simp
qed

lemma demo_reserve_101:
  "(case reserve_materials demo_env (lit ''t'') True [(lit ''101'')] Map.empty demo_reserved Missing of
      (Inr res, st', disk') \<Rightarrow>
        (case material_balance (requirements res) (lit ''glass'') of
           Some b \<Rightarrow> required_for_selected b = 4 \<and>
                     material_balance (requirements res) (lit ''tape'') = None
         | None \<Rightarrow> False)
    | _ \<Rightarrow> False)"
  by code_simp

theorem reserve_report_uses_prior_ledger_witness:
  "\<exists>res st' disk' b.
     reserve_materials demo_env (lit ''t'') True [(lit ''101'')] Map.empty demo_reserved Missing =
       (Inr res, st', disk') \<and>
     material_balance (requirements res) (lit ''glass'') = Some b \<and>
     already_reserved b = 8 \<and> available_now b = 2 \<and>
     reserved_after res (lit ''glass'') = Some 12 \<and> reserved_materials st' (lit ''glass'') = Some 12 \<and>
     material_balance (requirements res) (lit ''tape'') = None \<and> reserved_after res (lit ''tape'') = None"
proof -
  from demo_reserve_101 obtain res st' disk' b where
    res: "reserve_materials demo_env (lit ''t'') True [(lit ''101'')] Map.empty demo_reserved Missing =
            (Inr res, st', disk')"
    and b: "material_balance (requirements res) (lit ''glass'') = Some b" "required_for_selected b = 4"
    and tape: "material_balance (requirements res) (lit ''tape'') = None"
    by (auto split: prod.splits sum.splits option.splits)
  have prior: "reserved_materials demo_reserved (lit ''tape'') = None"
    by (simp add: lit_def demo_reserved_def demo_planner_def)
  from reserve_report_uses_prior_ledger[OF res] b tape prior
  have "already_reserved b = 8" "available_now b = 2" "reserved_after res (lit ''glass'') = Some 12"
    "reserved_materials st' (lit ''glass'') = Some 12" "reserved_after res (lit ''tape'') = None"
    by (auto simp: demo_reserved_ledger)
  with res b tape show ?thesis by blast
qed

text \<open>
  Claim C4. From a ledger with nothing reserved, two successful reservations
  in a row leave, for every material, the sum of the required quantities of the
  two requirement reports, each report being the one the calculator gives for
  that selection alone on the initial state; the materials reserved are those
  of either report. The first reservation is kept by the second, which adds to
  it. No disjointness of the two order lists is needed.
\<close>

theorem reserve_accumulates:
  assumes empty: "reserved_materials st = Map.empty"
    and first: "reserve_materials env now1 ok1 order_numbers1 dates1 st disk = (Inr res1, st1, disk1)"
    and second: "reserve_materials env now2 ok2 order_numbers2 dates2 st1 disk1 = (Inr res2, st2, disk2)"
  shows "\<exists>r1 r2.
     calculate_material_requirements env (snd (select_orders env order_numbers1 dates1 st)) = Inr r1 \<and>
     calculate_material_requirements env (snd (select_orders env order_numbers2 dates2 st)) = Inr r2 \<and>
     requirements res1 = r1 \<and>
     material_requirements (requirements res2) = material_requirements r2 \<and>
     reserved_materials st1 = material_requirements r1 \<and>
     (\<forall>m. get0 (reserved_materials st2) m =
            get0 (material_requirements r1) m + get0 (material_requirements r2) m) \<and>
     dom (reserved_materials st2) =
       dom (material_requirements r1) \<union> dom (material_requirements r2)"
proof -
  from first obtain sel1 where
    sel1: "select_orders env order_numbers1 dates1 st = (Inr sel1, st\<lparr>selected_orders := sel1\<rparr>)"
    and calc1: "calculate_material_requirements env (st\<lparr>selected_orders := sel1\<rparr>) =
                  Inr (requirements res1)"
    and st1: "st1 = st\<lparr> selected_orders := sel1,
                reserved_materials :=
                  add_reserved (reserved_materials st) (material_requirements (requirements res1)) \<rparr>"
    by (rule reserve_materials_InrD)
  from second obtain sel2 where
    sel2: "select_orders env order_numbers2 dates2 st1 = (Inr sel2, st1\<lparr>selected_orders := sel2\<rparr>)"
    and calc2: "calculate_material_requirements env (st1\<lparr>selected_orders := sel2\<rparr>) =
                  Inr (requirements res2)"
    and st2: "st2 = st1\<lparr> selected_orders := sel2,
                reserved_materials :=
                  add_reserved (reserved_materials st1) (material_requirements (requirements res2)) \<rparr>"
    by (rule reserve_materials_InrD)
  have same: "orders_df st1 = orders_df st" by (simp add: st1)
  from select_orders_same_table[OF same, of env order_numbers2 dates2] sel2
  have "fst (select_orders env order_numbers2 dates2 st) = Inr sel2" by simp
  then have sel2': "select_orders env order_numbers2 dates2 st = (Inr sel2, st\<lparr>selected_orders := sel2\<rparr>)"
    by (cases rule: select_orders_cases[of env order_numbers2 dates2 st]) simp_all
  from calculate_requirements_frame[OF calc2, of "st\<lparr>selected_orders := sel2\<rparr>"]
  obtain r2 where r2: "calculate_material_requirements env (st\<lparr>selected_orders := sel2\<rparr>) = Inr r2"
    and req2: "material_requirements r2 = material_requirements (requirements res2)"
    by (auto simp: st1)
  have only1: "add_reserved Map.empty required = required" for required :: "pystr \<rightharpoonup> real"
    by (rule ext) (simp add: add_reserved_def get0_def split: option.splits)
  have res1: "reserved_materials st1 = material_requirements (requirements res1)"
    by (simp add: st1 empty only1)
  have res2: "reserved_materials st2 =
      add_reserved (material_requirements (requirements res1)) (material_requirements r2)"
    by (simp add: st2 res1 req2)
  show ?thesis
    by (intro exI[of _ "requirements res1"] exI[of _ r2])
       (simp add: sel1 calc1 sel2' r2 req2 res1 res2 get0_add_reserved dom_add_reserved)
qed

lemma demo_reserve_twice:
  "(case reserve_materials demo_env (lit ''t1'') True [(lit ''101'')] Map.empty demo_planner Missing of
      (Inr res1, st1, disk1) \<Rightarrow>
        (case reserve_materials demo_env (lit ''t2'') True [(lit ''102'')] Map.empty st1 disk1 of
           (Inr res2, st2, disk2) \<Rightarrow>
             material_requirements (requirements res1) (lit ''glass'') = Some 4 \<and>
             material_requirements (requirements res1) (lit ''tape'') = None \<and>
             material_requirements (requirements res2) (lit ''glass'') = Some 4 \<and>
             material_requirements (requirements res2) (lit ''tape'') = Some 3
         | _ \<Rightarrow> False)
    | _ \<Rightarrow> False)"
  by code_simp

theorem reserve_accumulates_witness:
  "reserved_materials demo_planner = Map.empty \<and>
   (\<exists>res1 st1 disk1 res2 st2 disk2.
      reserve_materials demo_env (lit ''t1'') True [(lit ''101'')] Map.empty demo_planner Missing =
        (Inr res1, st1, disk1) \<and>
      reserve_materials demo_env (lit ''t2'') True [(lit ''102'')] Map.empty st1 disk1 =
        (Inr res2, st2, disk2) \<and>
      get0 (reserved_materials st2) (lit ''glass'') = 8 \<and>
      get0 (reserved_materials st2) (lit ''tape'') = 3)"
proof -
  have empty: "reserved_materials demo_planner = Map.empty"
    by (simp add: demo_planner_def)
  obtain out1 st1 disk1 where
    step1: "reserve_materials demo_env (lit ''t1'') True [(lit ''101'')] Map.empty demo_planner Missing =
        (out1, st1, disk1)"
    by (rule prod_cases3)
  obtain out2 st2 disk2 where
    step2: "reserve_materials demo_env (lit ''t2'') True [(lit ''102'')] Map.empty st1 disk1 =
        (out2, st2, disk2)"
    by (rule prod_cases3)
  from demo_reserve_twice obtain res1 where out1: "out1 = Inr res1"
    by (cases out1) (simp_all add: step1)
  from demo_reserve_twice obtain res2 where out2: "out2 = Inr res2"
    by (cases out2) (simp_all add: step1 step2 out1)
  note first = step1[unfolded out1] and second = step2[unfolded out2]
  from demo_reserve_twice have reqs:
      "material_requirements (requirements res1) (lit ''glass'') = Some 4"
      "material_requirements (requirements res1) (lit ''tape'') = None"
      "material_requirements (requirements res2) (lit ''glass'') = Some 4"
      "material_requirements (requirements res2) (lit ''tape'') = Some 3"
    by (simp_all add: first second)
  from reserve_accumulates[OF empty first second] reqs
  have "get0 (reserved_materials st2) (lit ''glass'') = 8" "get0 (reserved_materials st2) (lit ''tape'') = 3"
    by (auto simp: get0_def)
  with empty first second show ?thesis by blast
qed

text \<open>
  Claim C5. When the selection comes out empty, \<open>reserve_materials\<close> returns the
  error of the calculator, the state differs from the one before in its
  selection only (the reserved mapping is the same) and the file is not
  written. The empty order list is such a call, on every state.
\<close>

theorem reserve_without_selection:
  "(fst (select_orders env order_numbers dates st) = Inr [] \<longrightarrow>
      reserve_materials env now open_ok order_numbers dates st disk =
        (Inl NoOrdersSelected, st\<lparr>selected_orders := []\<rparr>, disk)) \<and>
   reserve_materials env now open_ok [] dates st disk =
     (Inl NoOrdersSelected, st\<lparr>selected_orders := []\<rparr>, disk) \<and>
   reserved_materials (st\<lparr>selected_orders := []\<rparr>) = reserved_materials st"
proof -
  have none: "calculate_material_requirements env (st\<lparr>selected_orders := []\<rparr>) = Inl NoOrdersSelected"
    by (simp add: calculate_material_requirements_def)
  have general: "reserve_materials env now open_ok order_numbers dates st disk =
        (Inl NoOrdersSelected, st\<lparr>selected_orders := []\<rparr>, disk)"
    if "fst (select_orders env order_numbers dates st) = Inr []"
    using that none
    by (cases rule: select_orders_cases[of env order_numbers dates st])
       (simp_all add: reserve_materials_def)
  have "reserve_materials env now open_ok [] dates st disk =
     (Inl NoOrdersSelected, st\<lparr>selected_orders := []\<rparr>, disk)"
    by (simp add: reserve_materials_def select_orders_empty_list none)
  with general show ?thesis by simp
qed

lemma demo_unknown_order: "fst (select_orders demo_env [(lit ''999'')] Map.empty demo_reserved) = Inr []"
  by code_simp

theorem reserve_without_selection_witness:
  "fst (select_orders demo_env [(lit ''999'')] Map.empty demo_reserved) = Inr [] \<and>
   reserve_materials demo_env (lit ''t'') True [(lit ''999'')] Map.empty demo_reserved Missing =
     (Inl NoOrdersSelected, demo_reserved\<lparr>selected_orders := []\<rparr>, Missing) \<and>
   reserved_materials (demo_reserved\<lparr>selected_orders := []\<rparr>) (lit ''glass'') = Some 8"
  using reserve_without_selection[of demo_env "[(lit ''999'')]" Map.empty demo_reserved "(lit ''t'')" True Missing]
    demo_unknown_order
  by (simp add: demo_reserved_def)

lemma save_not_opened: "save_reservation_data env now False st disk = disk"
  by (simp add: save_reservation_data_def)

text \<open>
  Claim C8. When the selection is not empty, \<open>reserve_materials\<close> returns
  success, with the updated reserved mapping and the full report, whatever
  happens to the write: the outcome and the state are the same for every
  \<open>open_ok\<close> and every content the file ends with, and a file that could not
  be opened is left as it was.
\<close>

theorem reserve_survives_failed_write:
  assumes "fst (select_orders env order_numbers dates st) = Inr sel" and "sel \<noteq> []"
  shows "\<exists>reqs.
     calculate_material_requirements env (st\<lparr>selected_orders := sel\<rparr>) = Inr reqs \<and>
     (\<forall>open_ok. \<exists>disk'.
        reserve_materials env now open_ok order_numbers dates st disk =
          (Inr \<lparr> reserved_orders = map fst sel,
                 reserved_after = add_reserved (reserved_materials st) (material_requirements reqs),
                 requirements = reqs \<rparr>,
           st\<lparr> selected_orders := sel,
               reserved_materials :=
                 add_reserved (reserved_materials st) (material_requirements reqs) \<rparr>,
           disk')) \<and>
     snd (snd (reserve_materials env now False order_numbers dates st disk)) = disk"
proof -
  from assms(1) have sel: "select_orders env order_numbers dates st = (Inr sel, st\<lparr>selected_orders := sel\<rparr>)"
    by (cases rule: select_orders_cases[of env order_numbers dates st]) simp_all
  from assms(2) have "selected_orders (st\<lparr>selected_orders := sel\<rparr>) \<noteq> []" by simp
  from calculate_Inr[OF this, of env] obtain reqs where
    reqs: "calculate_material_requirements env (st\<lparr>selected_orders := sel\<rparr>) = Inr reqs"
    by blast
  note res = reserve_materials_selected[OF sel reqs, of now _ disk]
  show ?thesis
    by (intro exI[of _ reqs]) (simp add: reqs res save_not_opened)
qed

lemma demo_select_101:
  "fst (select_orders demo_env [(lit ''101'')] Map.empty demo_planner) = Inr demo_selection"
  by code_simp

theorem reserve_survives_failed_write_witness:
  "fst (select_orders demo_env [(lit ''101'')] Map.empty demo_planner) = Inr demo_selection \<and>
   demo_selection \<noteq> [] \<and>
   (\<exists>res st'.
      reserve_materials demo_env (lit ''t'') False [(lit ''101'')] Map.empty demo_planner Missing =
        (Inr res, st', Missing) \<and>
      reserved_orders res = [(lit ''101'')])"
proof -
  have ne: "demo_selection \<noteq> []" by (simp add: demo_selection_def)
  from reserve_survives_failed_write[OF demo_select_101 ne, of "(lit ''t'')" Missing]
  obtain reqs disk' where
    "reserve_materials demo_env (lit ''t'') False [(lit ''101'')] Map.empty demo_planner Missing =
          (Inr \<lparr> reserved_orders = map fst demo_selection,
                 reserved_after = add_reserved (reserved_materials demo_planner) (material_requirements reqs),
                 requirements = reqs \<rparr>,
           demo_planner\<lparr> selected_orders := demo_selection,
               reserved_materials :=
                 add_reserved (reserved_materials demo_planner) (material_requirements reqs) \<rparr>,
           disk')"
    and "snd (snd (reserve_materials demo_env (lit ''t'') False [(lit ''101'')] Map.empty demo_planner Missing)) = Missing"
    by blast
  then show ?thesis using demo_select_101 ne by (auto simp: demo_selection_def)
qed

subsection \<open>The persisted ledger\<close>

lemma update_fresh: "k \<notin> fst ` set al \<Longrightarrow> AList.update k v al = al @ [(k, v)]"
  by (induction al) auto

lemma fold_update_fresh:
  "distinct (map fst xs) \<Longrightarrow> fst ` set xs \<inter> fst ` set acc = {} \<Longrightarrow>
   fold (\<lambda>(k, v) out. AList.update k (f v) out) xs acc = acc @ map (\<lambda>(k, v). (k, f v)) xs"
proof (induction xs arbitrary: acc)
  case Nil
  then show ?case by simp
next
  case (Cons p xs)
  obtain k v where p: "p = (k, v)" by (cases p)
  from Cons.prems p have fresh: "k \<notin> fst ` set acc" by auto
  from Cons.prems p have "fst ` set xs \<inter> fst ` set (acc @ [(k, f v)]) = {}"
    by (auto simp: image_iff)
  with Cons p fresh show ?case by (simp add: update_fresh)
qed

lemma fold_update_empty:
  "distinct (map fst xs) \<Longrightarrow>
   fold (\<lambda>(k, v) out. AList.update k (f v) out) xs [] = map (\<lambda>(k, v). (k, f v)) xs"
  using fold_update_fresh[of xs "[]" f] by simp



lemma set_update_distinct:
  "distinct (map fst al) \<Longrightarrow> (f, w) \<in> set (AList.update k v al) \<Longrightarrow>
   (f = k \<and> w = v) \<or> ((f, w) \<in> set al \<and> f \<noteq> k)"
  by (induction al) (auto split: if_splits simp: image_iff)

lemma dump_fields_plain:
  "\<forall>(f, v) \<in> set info. \<forall>d. v \<noteq> Date d \<Longrightarrow>
   \<exists>js. dump_fields info = Some js \<and> map (\<lambda>(k, j). (k, of_json j)) js = info"
proof (induction info)
  case Nil
  then show ?case by simp
next
  case (Cons p info)
  obtain f v where p: "p = (f, v)" by (cases p)
  from Cons.prems p obtain j where j: "to_json v = Some j" "of_json j = v"
    by (cases v) auto
  from Cons obtain js where "dump_fields info = Some js" "map (\<lambda>(k, j). (k, of_json j)) js = info"
    by auto
  with p j show ?case by simp
qed

lemma dump_orders_plain:
  "\<forall>(k, info) \<in> set orders. \<forall>(f, v) \<in> set info. \<forall>d. v \<noteq> Date d \<Longrightarrow>
   \<exists>js. dump_orders orders = Some js \<and>
        map (\<lambda>(k, e). (k, map (\<lambda>(k, j). (k, of_json j)) e)) js = orders"
proof (induction orders)
  case Nil
  then show ?case by simp
next
  case (Cons p orders)
  obtain k info where p: "p = (k, info)" by (cases p)
  from Cons.prems p have "\<forall>(f, v) \<in> set info. \<forall>d. v \<noteq> Date d" by auto
  from dump_fields_plain[OF this] obtain e where
    e: "dump_fields info = Some e" "map (\<lambda>(k, j). (k, of_json j)) e = info" by blast
  from Cons obtain js where "dump_orders orders = Some js"
    "map (\<lambda>(k, e). (k, map (\<lambda>(k, j). (k, of_json j)) e)) js = orders" by auto
  with p e show ?case by simp
qed

lemma serialize_order_plain:
  assumes "distinct (map fst info)"
    and "\<forall>(f, v) \<in> set info. f \<noteq> date_key \<longrightarrow> (\<forall>d. v \<noteq> Date d)"
  shows "\<forall>(f, v) \<in> set (serialize_order env info). \<forall>d. v \<noteq> Date d"
proof (cases "map_of info date_key")
  case None
  then have "date_key \<notin> fst ` set info" by (simp add: map_of_eq_None_iff)
  with assms(2) None show ?thesis by (force simp: serialize_order_def)
next
  case (Some v)
  have others: "\<forall>d. w \<noteq> Date d" if "(f, w) \<in> set info" "f \<noteq> date_key" for f w
    using assms(2) that by auto
  show ?thesis
  proof (cases "\<exists>d. v = Date d")
    case True
    then obtain d where d: "v = Date d" by blast
    have "\<forall>d'. w \<noteq> Date d'"
      if "(f, w) \<in> set (AList.update date_key (Str (isoformat env d)) info)" for f w
      using set_update_distinct[OF assms(1) that] others by auto
    with Some d show ?thesis by (auto simp: serialize_order_def)
  next
    case False
    have "\<forall>d. w \<noteq> Date d" if "(f, w) \<in> set info" for f w
    proof (cases "f = date_key")
      case True
      with that assms(1) Some have "w = v" by simp
      with False show ?thesis by simp
    next
      case False
      with that others show ?thesis by blast
    qed
    moreover from False Some have "serialize_order env info = info"
      by (cases v) (auto simp: serialize_order_def)
    ultimately show ?thesis by auto
  qed
qed

lemma restore_serialize_order:
  assumes "\<forall>d. isoformat env d \<noteq> [] \<and> fromisoformat env (isoformat env d) = Some d"
  shows "restore_order env (serialize_order env info) = reloaded_order env info"
proof (cases "map_of info date_key")
  case None
  then show ?thesis by (simp add: serialize_order_def restore_order_def reloaded_order_def)
next
  case (Some v)
  then show ?thesis
    using assms
    by (cases v)
       (simp_all add: serialize_order_def restore_order_def reloaded_order_def restore_date_def
          reloaded_date_def update_conv' update_triv)
qed

lemma reloaded_order_structured:
  assumes "\<forall>v. map_of info date_key = Some v \<longrightarrow> v = PNone \<or> (\<exists>d. v = Date d)"
  shows "reloaded_order env info = info"
proof (cases "map_of info date_key")
  case None
  then show ?thesis by (simp add: reloaded_order_def)
next
  case (Some v)
  with assms have "reloaded_date env v = v" by (auto simp: reloaded_date_def)
  with Some show ?thesis by (simp add: reloaded_order_def update_triv)
qed

text \<open>
  Claim C6. Let \<open>fromisoformat\<close> invert \<open>isoformat\<close>, whose texts are not empty,
  let the selected orders be a dictionary of dictionaries (distinct keys) and
  let no field other than the shipment date hold a \<open>datetime\<close> (the snapshots
  are serializable). Then saving, with the file opened, and loading into an
  instance with no selection succeeds, gives the reserved mapping back as it
  was, and gives the selected orders back, in the same order and with the same
  fields, the shipment date of each being reloaded: a \<open>datetime\<close> or \<open>None\<close> as
  it was, a non-empty text as the \<open>datetime\<close> it parses to or \<open>None\<close> when it
  does not parse, and never an exception. When every shipment date is a
  \<open>datetime\<close> or \<open>None\<close>, the selected orders come back unchanged.
\<close>

theorem persist_restore_roundtrip:
  assumes iso: "\<forall>d. isoformat env d \<noteq> [] \<and> fromisoformat env (isoformat env d) = Some d"
    and keys: "distinct (map fst (selected_orders st))"
    and fields: "\<forall>(k, info) \<in> set (selected_orders st). distinct (map fst info)"
    and plain: "\<forall>(k, info) \<in> set (selected_orders st).
                  \<forall>(f, v) \<in> set info. f \<noteq> date_key \<longrightarrow> (\<forall>d. v \<noteq> Date d)"
    and fresh: "selected_orders fresh = []"
  shows "load_reservation_data env (save_reservation_data env now True st disk) fresh =
           (True, fresh\<lparr> reserved_materials := reserved_materials st,
                         selected_orders :=
                           map (\<lambda>(k, info). (k, reloaded_order env info)) (selected_orders st) \<rparr>) \<and>
         ((\<forall>(k, info) \<in> set (selected_orders st).
             \<forall>v. map_of info date_key = Some v \<longrightarrow> v = PNone \<or> (\<exists>d. v = Date d)) \<longrightarrow>
          load_reservation_data env (save_reservation_data env now True st disk) fresh =
            (True, fresh\<lparr> reserved_materials := reserved_materials st,
                          selected_orders := selected_orders st \<rparr>))"
proof -
  let ?ser = "map (\<lambda>(k, info). (k, serialize_order env info)) (selected_orders st)"
  have ser: "fold (\<lambda>(order_num, order_info) out.
                    AList.update order_num (serialize_order env order_info) out)
                 (selected_orders st) [] = ?ser"
    by (rule fold_update_empty[OF keys])
  have "\<forall>(k, info) \<in> set ?ser. \<forall>(f, v) \<in> set info. \<forall>d. v \<noteq> Date d"
  proof (clarify)
    fix k info f v d
    assume "(k, info) \<in> set ?ser" "(f, Date d) \<in> set info"
    then obtain info0 where in0: "(k, info0) \<in> set (selected_orders st)"
      and info: "info = serialize_order env info0" by auto
    from in0 fields have d0: "distinct (map fst info0)" by auto
    from in0 plain have "case (k, info0) of (k, info) \<Rightarrow>
        \<forall>(f, v) \<in> set info. f \<noteq> date_key \<longrightarrow> (\<forall>d. v \<noteq> Date d)" by (rule bspec[rotated])
    then have "\<forall>(f, v) \<in> set info0. f \<noteq> date_key \<longrightarrow> (\<forall>d. v \<noteq> Date d)" by simp
    note d0 this
    from serialize_order_plain[OF this, of env] info \<open>(f, Date d) \<in> set info\<close>
    show False by auto
  qed
  from dump_orders_plain[OF this] obtain js where
    js: "dump_orders ?ser = Some js"
    and decoded: "map (\<lambda>(k, e). (k, map (\<lambda>(k, j). (k, of_json j)) e)) js = ?ser" by blast
  have saved: "save_reservation_data env now True st disk =
      Document \<lparr> doc_reserved = Some (reserved_materials st), doc_orders = Some js,
                  doc_timestamp = now \<rparr>"
    by (simp add: save_reservation_data_def ser js)
  have keys_js: "distinct (map fst js)"
  proof -
    from arg_cong[OF decoded, of "map fst"] have "map fst js = map fst (selected_orders st)"
      by (simp add: case_prod_beta comp_def)
    with keys show ?thesis by simp
  qed
  let ?g = "\<lambda>e. restore_order env (map (\<lambda>(k, j). (k, of_json j)) e)"
  have "fold (\<lambda>(order_num, entries) sel. AList.update order_num (?g entries) sel) js []
          = map (\<lambda>(k, e). (k, ?g e)) js"
    by (rule fold_update_empty[OF keys_js])
  also have "... = map (\<lambda>(k, info). (k, restore_order env info))
                      (map (\<lambda>(k, e). (k, map (\<lambda>(k, j). (k, of_json j)) e)) js)"
    by (simp add: case_prod_beta comp_def)
  also have "... = map (\<lambda>(k, info). (k, reloaded_order env info)) (selected_orders st)"
    by (simp add: decoded case_prod_beta comp_def restore_serialize_order[OF iso])
  finally have loaded:
    "fold (\<lambda>(order_num, entries) sel. AList.update order_num (?g entries) sel) js []
       = map (\<lambda>(k, info). (k, reloaded_order env info)) (selected_orders st)" .
  have main: "load_reservation_data env (save_reservation_data env now True st disk) fresh =
           (True, fresh\<lparr> reserved_materials := reserved_materials st,
                         selected_orders :=
                           map (\<lambda>(k, info). (k, reloaded_order env info)) (selected_orders st) \<rparr>)"
    by (simp add: saved load_reservation_data_def fresh loaded)
  have same: "map (\<lambda>(k, info). (k, reloaded_order env info)) (selected_orders st) = selected_orders st"
    if structured: "\<forall>(k, info) \<in> set (selected_orders st).
             \<forall>v. map_of info date_key = Some v \<longrightarrow> v = PNone \<or> (\<exists>d. v = Date d)"
  proof -
    have "(\<lambda>(k, info). (k, reloaded_order env info)) p = p" if "p \<in> set (selected_orders st)" for p
      using that structured
      by (cases p) (auto intro: reloaded_order_structured)
    then show ?thesis by (simp add: map_idI)
  qed
  from main same show ?thesis by simp
qed

lemma date_key_not_client: "date_key \<noteq> (lit ''client'')" "(lit ''client'') \<noteq> date_key"
  by (simp_all add: lit_def date_key_def)

lemma demo_env_iso:
  "\<forall>d. isoformat demo_env d \<noteq> [] \<and> fromisoformat demo_env (isoformat demo_env d) = Some d"
  by (simp add: demo_env_def)

theorem persist_restore_roundtrip_witness:
  "(\<forall>d. isoformat demo_env d \<noteq> [] \<and> fromisoformat demo_env (isoformat demo_env d) = Some d) \<and>
   distinct (map fst (selected_orders demo_dated)) \<and>
   list_all (\<lambda>(k, info). distinct (map fst info)) (selected_orders demo_dated) \<and>
   list_all (\<lambda>(k, info). list_all (\<lambda>(f, v). f = date_key \<or> (\<forall>d. v \<noteq> Date d)) info)
     (selected_orders demo_dated) \<and>
   selected_orders demo_planner = [] \<and>
   load_reservation_data demo_env (save_reservation_data demo_env (lit ''t'') True demo_dated Missing)
       demo_planner =
     (True, demo_planner\<lparr> reserved_materials := [(lit ''glass'') \<mapsto> 8],
              selected_orders :=
                [((lit ''101''), [((lit ''client''), Str (lit ''A'')), (date_key, Date 3)]),
                 ((lit ''102''), [((lit ''client''), Str (lit ''B'')), (date_key, PNone)])] \<rparr>) \<and>
   map_of [((lit ''client''), Str (lit ''B'')), (date_key, Date 5 :: nat pyval)] date_key = Some (Date 5) \<and>
   load_reservation_data demo_env
       (save_reservation_data demo_env (lit ''t'') True demo_structured Missing) demo_planner =
     (True, demo_planner\<lparr> reserved_materials := reserved_materials demo_structured,
              selected_orders := selected_orders demo_structured \<rparr>)"
proof -
  have structured: "load_reservation_data demo_env
       (save_reservation_data demo_env (lit ''t'') True demo_structured Missing) demo_planner =
     (True, demo_planner\<lparr> reserved_materials := reserved_materials demo_structured,
              selected_orders := selected_orders demo_structured \<rparr>)"
  proof -
    have "distinct (map fst (selected_orders demo_structured))"
      and "\<forall>(k, info) \<in> set (selected_orders demo_structured). distinct (map fst info)"
      and "\<forall>(k, info) \<in> set (selected_orders demo_structured).
             \<forall>(f, v) \<in> set info. f \<noteq> date_key \<longrightarrow> (\<forall>d. v \<noteq> Date d)"
      and "selected_orders demo_planner = []"
      by (simp_all add: demo_structured_def demo_planner_def date_key_not_client)
    from persist_restore_roundtrip[OF demo_env_iso this, of "(lit ''t'')" Missing]
    have "(\<forall>(k, info) \<in> set (selected_orders demo_structured).
             \<forall>v. map_of info date_key = Some v \<longrightarrow> v = PNone \<or> (\<exists>d. v = Date d)) \<longrightarrow>
          load_reservation_data demo_env
             (save_reservation_data demo_env (lit ''t'') True demo_structured Missing) demo_planner =
            (True, demo_planner\<lparr> reserved_materials := reserved_materials demo_structured,
                          selected_orders := selected_orders demo_structured \<rparr>)"
      by (rule conjunct2)
    moreover have "\<forall>(k, info) \<in> set (selected_orders demo_structured).
             \<forall>v. map_of info date_key = Some v \<longrightarrow> v = PNone \<or> (\<exists>d. v = Date d)"
      by (simp add: demo_structured_def date_key_not_client)
    ultimately show ?thesis by (rule mp)
  qed
  have day5: "map_of [((lit ''client''), Str (lit ''B'')), (date_key, Date 5 :: nat pyval)] date_key = Some (Date 5)"
    by (simp add: date_key_not_client)
  have keys: "distinct (map fst (selected_orders demo_dated))"
    by (simp add: lit_def demo_dated_def)
  have fields: "\<forall>(k, info) \<in> set (selected_orders demo_dated). distinct (map fst info)"
    by (simp add: demo_dated_def date_key_not_client)
  have plain: "\<forall>(k, info) \<in> set (selected_orders demo_dated).
      \<forall>(f, v) \<in> set info. f \<noteq> date_key \<longrightarrow> (\<forall>d. v \<noteq> Date d)"
    by (simp add: demo_dated_def)
  have fresh: "selected_orders demo_planner = []"
    by (simp add: demo_planner_def)
  have lit_soon: "lit ''soon'' \<noteq> []"
    by (simp add: lit_def)
  have soon: "fromisoformat demo_env (lit ''soon'') = None"
    by (simp add: lit_def demo_env_def)
  have reloaded: "map (\<lambda>(k, info). (k, reloaded_order demo_env info)) (selected_orders demo_dated) =
      [((lit ''101''), [((lit ''client''), Str (lit ''A'')), (date_key, Date 3)]),
       ((lit ''102''), [((lit ''client''), Str (lit ''B'')), (date_key, PNone)])]"
    using lit_soon
    by (simp add: demo_dated_def reloaded_order_def reloaded_date_def date_key_not_client soon)
  from persist_restore_roundtrip[OF demo_env_iso keys fields plain fresh, of "(lit ''t'')" Missing]
  have "load_reservation_data demo_env (save_reservation_data demo_env (lit ''t'') True demo_dated Missing)
       demo_planner =
     (True, demo_planner\<lparr> reserved_materials := reserved_materials demo_dated,
              selected_orders :=
                map (\<lambda>(k, info). (k, reloaded_order demo_env info)) (selected_orders demo_dated) \<rparr>)"
    by blast
  moreover have "reserved_materials demo_dated = [(lit ''glass'') \<mapsto> 8]"
    by (simp add: demo_dated_def)
  moreover have "list_all (\<lambda>(k, info). distinct (map fst info)) (selected_orders demo_dated)"
    using fields by (simp add: list_all_iff)
  moreover have "list_all (\<lambda>(k, info).
      list_all (\<lambda>(f, v). f = date_key \<or> (\<forall>d. v \<noteq> Date d)) info) (selected_orders demo_dated)"
    by (simp add: demo_dated_def)
  ultimately show ?thesis
    using demo_env_iso keys fresh structured day5 by (simp only: reloaded simp_thms)
qed



subsection \<open>Matching column labels\<close>

lemma split_acc_append_space:
  "is_space sp \<Longrightarrow> split_acc cur (a @ sp # b) = split_acc cur a @ split_acc [] b"
  by (induction a arbitrary: cur) simp_all

lemma split_acc_no_space:
  "\<forall>c \<in> set s. \<not> is_space c \<Longrightarrow>
   split_acc cur s = (if cur = [] \<and> s = [] then [] else [rev cur @ s])"
  by (induction s arbitrary: cur) auto

lemma split_append_space: "is_space sp \<Longrightarrow> split (a @ sp # b) = split a @ split b"
  by (simp add: split_def split_acc_append_space)

lemma split_no_space:
  "\<forall>c \<in> set s. \<not> is_space c \<Longrightarrow> split s = (if s = [] then [] else [s])"
  by (simp add: split_def split_acc_no_space)

lemma token_in_split:
  assumes "t \<noteq> []" "\<forall>c \<in> set t. \<not> is_space c"
    and "pre = [] \<or> is_space (last pre)" "post = [] \<or> is_space (hd post)"
  shows "t \<in> set (split (pre @ t @ post))"
proof -
  have tail: "t \<in> set (split (t @ post))"
  proof (cases post)
    case Nil
    with assms(1,2) show ?thesis by (simp add: split_no_space)
  next
    case (Cons sp post')
    with assms(4) have "is_space sp" by simp
    with Cons assms(1,2) show ?thesis by (simp add: split_append_space split_no_space)
  qed
  show ?thesis
  proof (cases pre rule: rev_cases)
    case Nil
    with tail show ?thesis by simp
  next
    case (snoc pre' sp)
    with assms(3) have "is_space sp" by simp
    from split_append_space[OF this, of pre' "t @ post"] tail snoc show ?thesis by simp
  qed
qed

lemma split_token:
  "t \<in> set (split s) \<Longrightarrow>
   t \<noteq> [] \<and> (\<forall>c \<in> set t. \<not> is_space c) \<and>
   (\<exists>pre post. s = pre @ t @ post \<and> (pre = [] \<or> is_space (last pre)) \<and>
      (post = [] \<or> is_space (hd post)))"
proof (induction "length s" arbitrary: s rule: less_induct)
  case less
  let ?a = "takeWhile (\<lambda>c. \<not> is_space c) s"
  let ?rest = "dropWhile (\<lambda>c. \<not> is_space c) s"
  have a: "\<forall>c \<in> set ?a. \<not> is_space c" by (auto dest: set_takeWhileD)
  show ?case
  proof (cases ?rest)
    case Nil
    then have "s = ?a" by (metis append_Nil2 takeWhile_dropWhile_id)
    with a have s: "\<forall>c \<in> set s. \<not> is_space c" by metis
    with less.prems have "t = s" "s \<noteq> []" by (auto simp: split_no_space split: if_splits)
    moreover have "\<exists>pre post. s = pre @ s @ post \<and> (pre = [] \<or> is_space (last pre)) \<and>
        (post = [] \<or> is_space (hd post))"
      by (intro exI[of _ "[]"]) simp
    ultimately show ?thesis using s by simp
  next
    case (Cons sp b)
    then have sp: "is_space sp" using hd_dropWhile[of "\<lambda>c. \<not> is_space c" s] by auto
    from Cons have s: "s = ?a @ sp # b" by (metis takeWhile_dropWhile_id)
    from less.prems sp s have "t \<in> set (split ?a) \<or> t \<in> set (split b)"
      by (metis Un_iff set_append split_append_space)
    then show ?thesis
    proof
      assume "t \<in> set (split ?a)"
      with a have t: "t = ?a" "?a \<noteq> []" by (auto simp: split_no_space split: if_splits)
      with a s sp show ?thesis by (intro conjI exI[of _ "[]"] exI[of _ "sp # b"]) auto
    next
      assume tb: "t \<in> set (split b)"
      have "length (?a @ sp # b) = length s" by (simp only: s[symmetric])
      then have "length b < length s" by simp
      from less.hyps[OF this tb] obtain pre post where
        t: "t \<noteq> []" "\<forall>c \<in> set t. \<not> is_space c"
        and b: "b = pre @ t @ post" "pre = [] \<or> is_space (last pre)" "post = [] \<or> is_space (hd post)"
        by blast
      from s b(1) have "s = (?a @ sp # pre) @ t @ post" by simp
      moreover from b(2) sp have "is_space (last (?a @ sp # pre))" by auto
      ultimately show ?thesis using t b(3) by blast
    qed
  qed
qed

lemma split_tokens:
  "t \<in> set (split s) \<longleftrightarrow>
   t \<noteq> [] \<and> (\<forall>c \<in> set t. \<not> is_space c) \<and>
   (\<exists>pre post. s = pre @ t @ post \<and> (pre = [] \<or> is_space (last pre)) \<and>
      (post = [] \<or> is_space (hd post)))"
  using split_token[of t s] token_in_split[of t] by blast

lemma add_value_shift: "add_value env t v = t + add_value env 0 v"
  by (cases v) (simp_all split: option.splits)

lemma fold_add_value:
  "set cols \<subseteq> set (columns df) \<Longrightarrow>
   fold (\<lambda>c a. if c \<in> set (columns df) then add_value env a (row c) else a) cols t =
     t + (\<Sum>c \<leftarrow> cols. add_value env 0 (row c))"
proof (induction cols arbitrary: t)
  case Nil
  then show ?case by simp
next
  case (Cons c cols)
  then show ?case using add_value_shift[of env t "row c"] by simp
qed

lemma row_total_sum:
  "set cols \<subseteq> set (columns df) \<Longrightarrow>
   row_total env df cols idx = (\<Sum>c \<leftarrow> cols. add_value env 0 ((rows df ! idx) c))"
  by (simp add: row_total_def fold_add_value)

lemma dropWhile_spaces_append:
  "\<forall>c \<in> set pre. is_space c \<Longrightarrow> dropWhile is_space (pre @ r) = dropWhile is_space r"
  by (simp add: dropWhile_append2)

lemma dropWhile_keeps: "r = [] \<or> \<not> is_space (hd r) \<Longrightarrow> dropWhile is_space r = r"
  by (cases r) auto

lemma strip_decomposed:
  assumes "\<forall>c \<in> set pre. is_space c" "\<forall>c \<in> set post. is_space c"
    and "t = [] \<or> (\<not> is_space (hd t) \<and> \<not> is_space (last t))"
  shows "strip (pre @ t @ post) = t"
proof (cases "t = []")
  case True
  with assms(1,2) have "\<forall>c \<in> set (pre @ t @ post). is_space c" by auto
  then have "dropWhile is_space (pre @ t @ post) = []"
    by (simp only: dropWhile_eq_Nil_conv)
  then have "strip (pre @ t @ post) = []"
    by (simp only: strip_def rev.simps dropWhile.simps)
  with True show ?thesis by (simp only:)
next
  case False
  with assms(3) have ends: "\<not> is_space (hd t)" "\<not> is_space (last t)" by auto
  from False ends(1) have "dropWhile is_space (t @ post) = t @ post"
    by (intro dropWhile_keeps) simp
  with assms(1) have front: "dropWhile is_space (pre @ t @ post) = t @ post"
    by (simp add: dropWhile_spaces_append)
  from assms(2) have "dropWhile is_space (rev post @ rev t) = dropWhile is_space (rev t)"
    by (intro dropWhile_spaces_append) simp
  moreover from False ends(2) have "dropWhile is_space (rev t) = rev t"
    by (intro dropWhile_keeps) (simp add: hd_rev)
  ultimately show ?thesis by (simp add: strip_def front)
qed

lemma strip_trims: "trims_to s (strip s)"
proof -
  let ?u = "dropWhile is_space s"
  let ?v = "dropWhile is_space (rev ?u)"
  have s: "s = takeWhile is_space s @ ?u" by simp
  have "rev (takeWhile is_space (rev ?u) @ ?v) = rev (rev ?u)"
    by (simp only: takeWhile_dropWhile_id)
  then have "rev ?v @ rev (takeWhile is_space (rev ?u)) = ?u"
    by (simp only: rev_append rev_rev_ident)
  then have u: "?u = strip s @ rev (takeWhile is_space (rev ?u))"
    by (simp only: strip_def)
  have pre: "\<forall>c \<in> set (takeWhile is_space s). is_space c"
    by (auto dest: set_takeWhileD)
  have post: "\<forall>c \<in> set (rev (takeWhile is_space (rev ?u))). is_space c"
    by (auto dest: set_takeWhileD)
  have ends: "\<not> is_space (hd (strip s)) \<and> \<not> is_space (last (strip s))" if ne: "strip s \<noteq> []"
  proof -
    from ne have v: "?v \<noteq> []" by (simp add: strip_def)
    then have "\<not> is_space (hd ?v)" by (rule hd_dropWhile)
    then have l: "\<not> is_space (last (strip s))" using v by (simp add: strip_def last_rev)
    from ne u have "?u \<noteq> []" by (metis Nil_is_append_conv)
    then have "\<not> is_space (hd ?u)" by (rule hd_dropWhile)
    moreover from u ne have "hd ?u = hd (strip s)" by (metis hd_append2)
    ultimately show ?thesis using l by simp
  qed
  from s u have "s = takeWhile is_space s @ strip s @ rev (takeWhile is_space (rev ?u))"
    by metis
  with pre post ends show ?thesis unfolding trims_to_def by blast
qed

lemma trims_to_strip: "trims_to s t \<longleftrightarrow> t = strip s"
proof
  assume "trims_to s t"
  then obtain pre post where "s = pre @ t @ post" "\<forall>c \<in> set pre. is_space c"
    "\<forall>c \<in> set post. is_space c" "t = [] \<or> (\<not> is_space (hd t) \<and> \<not> is_space (last t))"
    unfolding trims_to_def by blast
  then show "t = strip s" by (simp add: strip_decomposed)
next
  assume "t = strip s"
  then show "trims_to s t" by (simp add: strip_trims)
qed

lemma token_of_split: "token_of t s \<longleftrightarrow> t \<in> set (split s)"
  by (simp add: token_of_def split_tokens)

lemma col_matches_spec:
  "col_matches (strip order_num) col \<longleftrightarrow>
     (\<exists>oid label. trims_to order_num oid \<and> trims_to col label \<and> (oid = label \<or> token_of oid label))"
  by (simp add: col_matches_def Let_def trims_to_strip token_of_split)

lemma order_columns_subset: "set (order_columns df t) \<subseteq> set (columns df)"
  by (simp add: order_columns_def)

text \<open>
  Claim C3. The columns that the resolver takes for an order are, in the order
  of the table, exactly those whose trimmed label equals the trimmed order
  number or holds it as one of its whitespace-separated tokens. Trimming and
  tokens are stated on their own: the trimmed text is what is left between a
  leading and a trailing run of whitespace, and a token is a non-empty run
  without whitespace that starts the label or follows a whitespace character,
  and ends the label or is followed by one. At every row index the total of
  the order is the sum of what the cells of exactly these columns add. So the
  label \<open>101 102\<close> is taken for order \<open>101\<close>.
\<close>

theorem order_columns_matching:
  "order_columns df (strip order_num) =
     filter (\<lambda>col. \<exists>oid label. trims_to order_num oid \<and> trims_to col label \<and>
                     (oid = label \<or> token_of oid label))
       (columns df) \<and>
   (idx < length (rows df) \<longrightarrow>
      total_requirement env df (order_columns df (strip order_num)) idx 0 =
        Inr (\<Sum>col \<leftarrow> order_columns df (strip order_num). add_value env 0 ((rows df ! idx) col)))"
proof -
  have "order_columns df (strip order_num) =
     filter (\<lambda>col. \<exists>oid label. trims_to order_num oid \<and> trims_to col label \<and>
                     (oid = label \<or> token_of oid label))
       (columns df)"
    unfolding order_columns_def by (rule filter_cong[OF refl]) (simp only: col_matches_spec)
  moreover have "total_requirement env df (order_columns df (strip order_num)) idx 0 =
        Inr (\<Sum>col \<leftarrow> order_columns df (strip order_num). add_value env 0 ((rows df ! idx) col))"
    if "idx < length (rows df)"
    using that by (simp add: total_requirement_row_total row_total_sum order_columns_subset)
  ultimately show ?thesis by simp
qed

lemma demo_order_101:
  "(case calculate_material_requirements demo_env
            (snd (select_orders demo_env [(lit ''101'')] Map.empty demo_planner)) of
      Inr r \<Rightarrow> (case order_materials r (lit ''101'') of Some d \<Rightarrow> d (lit ''glass'') = Some 4 | None \<Rightarrow> False)
    | Inl _ \<Rightarrow> False)"
  by code_simp

lemma demo_order_columns: "order_columns demo_materials (strip (lit ''101'')) = [(lit ''101 102'')]"
  by code_simp

lemma padded_columns_101:
  "order_columns padded_materials (strip (lit ''101'')) =
     [padded_label, nbsp_label]"
  by code_simp

lemma padded_columns_101_102:
  "order_columns padded_materials (strip (lit '' 101 102'')) = [padded_label]"
  by code_simp

lemma padded_cells:
  "add_value demo_env 0 ((rows padded_materials ! 0) (padded_label)) = 4"
  "add_value demo_env 0 ((rows padded_materials ! 0) (nbsp_label)) = 2"
  by (simp_all add: padded_materials_def row_of_def material_col_def lit_def padded_label_def
        nbsp_label_def)

theorem order_columns_matching_witness:
  "filter (\<lambda>col. \<exists>oid label. trims_to (lit ''101'') oid \<and> trims_to col label \<and>
                   (oid = label \<or> token_of oid label))
     (columns padded_materials) = [padded_label, nbsp_label] \<and>
   filter (\<lambda>col. \<exists>oid label. trims_to (lit '' 101 102'') oid \<and> trims_to col label \<and>
                   (oid = label \<or> token_of oid label))
     (columns padded_materials) = [padded_label] \<and>
   0 < length (rows padded_materials) \<and>
   total_requirement demo_env padded_materials (order_columns padded_materials (strip (lit ''101'')))
     0 0 = Inr 6 \<and>
   filter (\<lambda>col. \<exists>oid label. trims_to (lit ''101'') oid \<and> trims_to col label \<and>
                   (oid = label \<or> token_of oid label))
     (columns demo_materials) = [lit ''101 102''] \<and>
   (\<exists>r d. calculate_material_requirements demo_env
              (snd (select_orders demo_env [lit ''101''] Map.empty demo_planner)) = Inr r \<and>
          order_materials r (lit ''101'') = Some d \<and> d (lit ''glass'') = Some 4)"
proof -
  have rows: "0 < length (rows padded_materials)"
    by (simp add: padded_materials_def)
  note first = order_columns_matching[of padded_materials "lit ''101''" 0 demo_env]
  note second = order_columns_matching[of padded_materials "lit '' 101 102''" 0 demo_env]
  from first have "filter (\<lambda>col. \<exists>oid label. trims_to (lit ''101'') oid \<and> trims_to col label \<and>
                   (oid = label \<or> token_of oid label))
     (columns padded_materials) = [padded_label, nbsp_label]"
    by (simp only: padded_columns_101)
  moreover from second have "filter (\<lambda>col. \<exists>oid label. trims_to (lit '' 101 102'') oid \<and>
                   trims_to col label \<and> (oid = label \<or> token_of oid label))
     (columns padded_materials) = [padded_label]"
    by (simp only: padded_columns_101_102)
  moreover from first rows have "total_requirement demo_env padded_materials
      (order_columns padded_materials (strip (lit ''101''))) 0 0 =
        Inr (\<Sum>col \<leftarrow> order_columns padded_materials (strip (lit ''101'')).
               add_value demo_env 0 ((rows padded_materials ! 0) col))"
    by blast
  moreover have "(\<Sum>col \<leftarrow> order_columns padded_materials (strip (lit ''101'')).
               add_value demo_env 0 ((rows padded_materials ! 0) col)) = 6"
    by (simp add: padded_columns_101 padded_cells)
  moreover from order_columns_matching[of demo_materials "lit ''101''" 0 demo_env]
  have "filter (\<lambda>col. \<exists>oid label. trims_to (lit ''101'') oid \<and> trims_to col label \<and>
                   (oid = label \<or> token_of oid label))
     (columns demo_materials) = [lit ''101 102'']"
    by (simp only: demo_order_columns)
  moreover from demo_order_101 have "\<exists>r d. calculate_material_requirements demo_env
              (snd (select_orders demo_env [lit ''101''] Map.empty demo_planner)) = Inr r \<and>
          order_materials r (lit ''101'') = Some d \<and> d (lit ''glass'') = Some 4"
    by (auto split: sum.splits option.splits)
  ultimately show ?thesis using rows by (simp only: simp_thms)
qed

subsection \<open>The required quantities and the row join\<close>

lemma sum_enumerate_rows:
  "(\<Sum>(i, x) \<leftarrow> enumerate 0 (map f xs). h i x) = (\<Sum>r \<leftarrow> xs. k r)"
  if "\<And>i. i < length xs \<Longrightarrow> h i (f (xs ! i)) = k (xs ! i)"
proof -
  have "map (\<lambda>(i, x). h i x) (enumerate 0 (map f xs)) = map k xs"
    by (rule nth_equalityI) (simp_all add: nth_enumerate_eq that)
  then show ?thesis by simp
qed

lemma all_materials_no_blank:
  assumes "material_col \<in> set (columns df)" "\<forall>row \<in> set (rows df). notna (row material_col)"
  shows "all_materials env df = map (\<lambda>row. strip (py_str env (row material_col))) (rows df)"
proof -
  have "filter notna (series df material_col) = series df material_col"
    using assms(2) by (simp add: series_def)
  with assms(1) show ?thesis by (simp add: all_materials_def series_def comp_def)
qed

lemma indexed_is_joined:
  assumes "\<forall>row \<in> set (rows df). notna (row material_col)"
  shows "indexed_requirement env df order_num m = joined_requirement env df order_num m"
proof (cases "material_col \<in> set (columns df)")
  case False
  then show ?thesis
    by (simp add: indexed_requirement_def joined_requirement_def all_materials_def)
next
  case True
  have "indexed_requirement env df order_num m =
      (\<Sum>(i, x) \<leftarrow> enumerate 0 (map (\<lambda>row. strip (py_str env (row material_col))) (rows df)).
          if x = m then positive_part (row_total env df (order_columns df (strip order_num)) i) else 0)"
    by (simp add: indexed_requirement_def all_materials_no_blank[OF True assms])
  also have "\<dots> = joined_requirement env df order_num m"
    unfolding joined_requirement_def
    by (rule sum_enumerate_rows) (simp add: True assms row_total_sum order_columns_subset)
  finally show ?thesis .
qed

text \<open>The formulas of the report hold for every state with a selection; and
  when no material cell of the table is blank, the required quantity of a
  material is the total of the row-joined requirements of the selected orders.\<close>

lemma balance_report_formulas:
  assumes "selected_orders st \<noteq> []"
  shows "\<exists>r. calculate_material_requirements env st = Inr r \<and>
     (\<forall>m. material_balance r m = None \<longrightarrow> purchase_requirements r m = None) \<and>
     (\<forall>m b. material_balance r m = Some b \<longrightarrow>
        material_requirements r m = Some (required_for_selected b) \<and>
        available_now b = max 0 (get0 (stock_data st) m - get0 (reserved_materials st) m) \<and>
        balance_after b = available_now b - required_for_selected b \<and>
        purchase_requirements r m =
          (if balance_after b < 0 then Some (- balance_after b) else None) \<and>
        ((\<forall>row \<in> set (rows (materials_df st)). notna (row material_col)) \<longrightarrow>
         required_for_selected b =
           (\<Sum>order_num \<leftarrow> map fst (selected_orders st).
              joined_requirement env (materials_df st) order_num m)))"
proof -
  let ?acc = "required_acc env (materials_df st) (map fst (selected_orders st))"
  let ?req = "fst ?acc"
  let ?r = "\<lparr> material_requirements = ?req,
              material_balance = (\<lambda>m. map_option (balance_of st m) (?req m)),
              purchase_requirements =
                (\<lambda>m. Option.bind (?req m) (\<lambda>r. purchase_of (balance_of st m r))),
              order_materials = snd ?acc \<rparr>"
  have sum: "x = (\<Sum>order_num \<leftarrow> map fst (selected_orders st).
                    joined_requirement env (materials_df st) order_num m)"
    if "?req m = Some x" "\<forall>row \<in> set (rows (materials_df st)). notna (row material_col)" for m x
    using that(1) get0_required_acc[of env "materials_df st" "map fst (selected_orders st)" m]
    by (simp add: get0_def indexed_is_joined[OF that(2)])
  have calc: "calculate_material_requirements env st = Inr ?r"
    by (rule calculate_Inr[OF assms])
  have absent: "\<forall>m. material_balance ?r m = None \<longrightarrow> purchase_requirements ?r m = None"
    by simp
  have present: "material_requirements ?r m = Some (required_for_selected b) \<and>
        available_now b = max 0 (get0 (stock_data st) m - get0 (reserved_materials st) m) \<and>
        balance_after b = available_now b - required_for_selected b \<and>
        purchase_requirements ?r m =
          (if balance_after b < 0 then Some (- balance_after b) else None) \<and>
        ((\<forall>row \<in> set (rows (materials_df st)). notna (row material_col)) \<longrightarrow>
         required_for_selected b =
           (\<Sum>order_num \<leftarrow> map fst (selected_orders st).
              joined_requirement env (materials_df st) order_num m))"
    if "material_balance ?r m = Some b" for m b
  proof -
    from that obtain x where x: "?req m = Some x" and b: "b = balance_of st m x"
      by auto
    have req: "required_for_selected b = x"
      by (simp add: b balance_of_def Let_def)
    have "available_now b = max 0 (get0 (stock_data st) m - get0 (reserved_materials st) m)"
      by (simp add: b balance_of_def Let_def)
    moreover have "balance_after b = available_now b - required_for_selected b"
      by (simp add: b balance_of_def Let_def)
    moreover have "purchase_requirements ?r m =
          (if balance_after b < 0 then Some (- balance_after b) else None)"
      by (simp add: x b purchase_of_def)
    moreover have "(\<forall>row \<in> set (rows (materials_df st)). notna (row material_col)) \<longrightarrow>
         required_for_selected b =
           (\<Sum>order_num \<leftarrow> map fst (selected_orders st).
              joined_requirement env (materials_df st) order_num m)"
      using sum[OF x] req by simp
    ultimately show ?thesis using x req by simp
  qed
  from calc absent present show ?thesis by blast
qed

lemma shifted_stocked_glass:
  "(case calculate_material_requirements demo_env shifted_stocked of
      Inr r \<Rightarrow> (case material_balance r (lit ''glass'') of
                  Some b \<Rightarrow> required_for_selected b = 7 \<and> available_now b = 5 \<and>
                            balance_after b = - 2 \<and>
                            purchase_requirements r (lit ''glass'') = Some 2
                | None \<Rightarrow> False)
    | Inl _ \<Rightarrow> False)"
  by code_simp

lemma shifted_stocked_joined:
  "(\<Sum>order_num \<leftarrow> map fst (selected_orders shifted_stocked).
      joined_requirement demo_env (materials_df shifted_stocked) order_num (lit ''glass'')) = 4"
  by code_simp

text \<open>
  Claim C1 fails on the code. The report does state available-now as
  \<open>max(0, stock - reserved)\<close>, balance-after as available-now minus its required
  figure and the purchase entry as the negative balance, but the required
  figure is not the total resolved requirement when a material cell is blank.
  With stock \<open>glass: 5\<close>, nothing reserved and the table whose first row is
  blank with quantity 7 and whose second row is \<open>glass\<close> with quantity 4, the
  report requires 7 of glass, states the balance -2 and asks to purchase 2,
  while the requirement resolved by row is 4, which leaves a balance of 1 and
  nothing to purchase.
\<close>

theorem report_required_misses_row_join:
  "(\<exists>r b. calculate_material_requirements demo_env shifted_stocked = Inr r \<and>
          material_balance r (lit ''glass'') = Some b \<and>
          required_for_selected b = 7 \<and> available_now b = 5 \<and> balance_after b = - 2 \<and>
          purchase_requirements r (lit ''glass'') = Some 2) \<and>
   (\<Sum>order_num \<leftarrow> map fst (selected_orders shifted_stocked).
      joined_requirement demo_env (materials_df shifted_stocked) order_num (lit ''glass'')) = 4"
proof -
  from shifted_stocked_glass
  have "\<exists>r b. calculate_material_requirements demo_env shifted_stocked = Inr r \<and>
          material_balance r (lit ''glass'') = Some b \<and>
          required_for_selected b = 7 \<and> available_now b = 5 \<and> balance_after b = - 2 \<and>
          purchase_requirements r (lit ''glass'') = Some 2"
    by (auto split: sum.splits option.splits)
  with shifted_stocked_joined show ?thesis by (rule conjI[rotated])
qed

subsection \<open>The stock index\<close>










subsection \<open>Blank material cells and the row index\<close>

lemma shifted_glass:
  "(case calculate_material_requirements demo_env shifted_planner of
      Inr r \<Rightarrow> material_requirements r (lit ''glass'') = Some 7
    | Inl _ \<Rightarrow> False)"
  by code_simp

text \<open>
  Claim C2 fails on the code. The first row of the table has a blank material
  cell and the quantity 7 under \<open>101\<close>; the second row is \<open>glass\<close> with the
  quantity 4. The list of material names drops the blank cell, so \<open>glass\<close> gets
  index 0 and is given the quantity of the first row.
\<close>

theorem blank_material_row_shifts_quantities:
  "(\<exists>r. calculate_material_requirements demo_env shifted_planner = Inr r \<and>
        material_requirements r (lit ''glass'') = Some 7) \<and>
   map (\<lambda>row. (row material_col, row (lit ''101''))) (rows (materials_df shifted_planner)) =
     [(NaN, Num 7), (Str (lit ''glass''), Num 4)]"
proof -
  have "map (\<lambda>row. (row material_col, row (lit ''101''))) (rows (materials_df shifted_planner)) =
     [(NaN, Num 7), (Str (lit ''glass''), Num 4)]"
    by (simp add: lit_def shifted_planner_def shifted_materials_def row_of_def material_col_def)
  with shifted_glass show ?thesis
    by (cases "calculate_material_requirements demo_env shifted_planner") simp_all
qed

end
